theory Spec2Isabelle
  imports
    Complex_Main
    "HOL-Library.Char_ord"
    "HOL-Library.List_Lexorder"
    "HOL-Library.Product_Lexorder"
begin

section \<open>The NPS analyzer (src/nps_analyzer.py) and its web shell (src/app.py)\<close>

text \<open>
  Conventions of the embedding.
  \<^item> A pandas data frame is a list of column names and a list of rows. A row is a record
    with one typed field per required column; a field is only ever read after the frame
    has been asked for its column, and asking for an absent column raises \<open>KeyError\<close>.
  \<^item> Numbers are exact rationals: the float64 arithmetic of pandas is idealised, and
    \<open>round(x, n)\<close> rounds the scaled value to the nearest integer, ties to even.
  \<^item> The two-valued display strings (yes / no) are booleans.
  \<^item> Supplier, sub-account and follower identifiers are integers and names are strings;
    the cells of a column that is present are well-typed and non-null. The conversions
    \<open>int(...)\<close> and \<open>str(...)\<close> that the source applies to identifiers on output are
    not represented.
  \<^item> The source's column names and dictionary keys are Chinese; every constant below
    carries the English meaning, in the order in which the source lists them.
\<close>

subsection \<open>Data model\<close>

text \<open>The twelve names of \<open>REQUIRED_COLUMNS\<close> (lines 12-16), in source order, and any other name.\<close>

datatype column =
    OrderNo | SupplierId | SupplierName | SubAccountUid | SubAccountName
  | TravelDate | FollowerId | FollowerName | DenominatorV5 | DetractorV5
  | PromoterV5 | HasFeedback | OtherColumn string

definition REQUIRED_COLUMNS :: "column list" where
  "REQUIRED_COLUMNS =
     [OrderNo, SupplierId, SupplierName, SubAccountUid, SubAccountName,
      TravelDate, FollowerId, FollowerName, DenominatorV5, DetractorV5,
      PromoterV5, HasFeedback]"

text \<open>A calendar date (year, month, day); its lexicographic order is the order of the
  \<open>%Y-%m-%d\<close> strings that line 162 produces.\<close>

type_synonym date = "nat \<times> nat \<times> nat"

record order_row =
  order_no :: string
  supplier_id :: int
  supplier_name :: string
  account_uid :: int
  account_name :: string
  travel_date :: date
  follower_id :: int
  follower_name :: string
  denominator_v5 :: rat
  detractor_v5 :: rat
  promoter_v5 :: rat
  has_feedback :: rat

record dataframe =
  columns :: "column list"
  rows :: "order_row list"

datatype error = KeyError | TypeError

text \<open>\<open>NPSAnalyzer\<close>: the three attributes set by \<open>__init__\<close> (lines 18-21).\<close>

record analyzer =
  nps_target :: int
  df :: "dataframe option"
  overall_nps :: rat

definition NPSAnalyzer :: "int \<Rightarrow> analyzer" where
  "NPSAnalyzer target = \<lparr> nps_target = target, df = None, overall_nps = 0 \<rparr>"

subsection \<open>Python's number built-ins\<close>

definition round_half_even :: "rat \<Rightarrow> int" where
  "round_half_even x =
     (let f = \<lfloor>x\<rfloor>; d = x - of_int f
      in if d < 1 / 2 then f
         else if 1 / 2 < d then f + 1
         else if even f then f else f + 1)"

definition py_round :: "rat \<Rightarrow> nat \<Rightarrow> rat" where
  "py_round x n = of_int (round_half_even (x * 10 ^ n)) / 10 ^ n"

text \<open>\<open>int(x)\<close> truncates towards zero.\<close>

definition py_int :: "rat \<Rightarrow> int" where
  "py_int x = (if 0 \<le> x then \<lfloor>x\<rfloor> else \<lceil>x\<rceil>)"

text \<open>\<open>list.sort(key=..., reverse=True)\<close>: CPython reverses the list, sorts it stably
  in ascending order and reverses the result.\<close>

definition sort_reverse :: "('a \<Rightarrow> 'k::linorder) \<Rightarrow> 'a list \<Rightarrow> 'a list" where
  "sort_reverse key xs = rev (sort_key key (rev xs))"

text \<open>\<open>DataFrame.groupby(key)\<close> iterated: one group per distinct key, keys ascending,
  each group holding its rows in frame order.\<close>

definition groupby :: "(order_row \<Rightarrow> 'k::linorder) \<Rightarrow> order_row list \<Rightarrow> ('k \<times> order_row list) list" where
  "groupby key rs = map (\<lambda>k. (k, filter (\<lambda>r. key r = k) rs)) (sort (remdups (map key rs)))"

definition has_columns :: "dataframe \<Rightarrow> column list \<Rightarrow> bool" where
  "has_columns d cs = list_all (\<lambda>c. c \<in> set (columns d)) cs"

subsection \<open>Metric calculator: \<open>_calc_nps_metrics\<close> (lines 43-64)\<close>

record metrics =
  order_count :: nat
  effective_denominator :: rat
  detractor_count :: int
  promoter_score_sum :: rat
  detractor_rate :: rat
  promoter_rate :: rat
  nps :: rat

definition sum_denominator :: "order_row list \<Rightarrow> rat" where
  "sum_denominator g = sum_list (map denominator_v5 g)"

definition sum_detractor :: "order_row list \<Rightarrow> rat" where
  "sum_detractor g = sum_list (map detractor_v5 g)"

definition sum_promoter :: "order_row list \<Rightarrow> rat" where
  "sum_promoter g = sum_list (map (\<lambda>r. promoter_v5 r * denominator_v5 r) g)"

text \<open>Lines 49-54: the unrounded triple (detractor rate, promoter rate, nps).\<close>

definition raw_rates :: "order_row list \<Rightarrow> rat \<times> rat \<times> rat" where
  "raw_rates g =
     (let denominator = sum_denominator g;
          detractor = sum_detractor g;
          promoter = sum_promoter g
      in if denominator > 0
         then (let detractor_rate = detractor / denominator;
                   promoter_rate = promoter / denominator
               in (detractor_rate, promoter_rate, (promoter_rate - detractor_rate) * 100))
         else (0, 0, 0))"

definition calc_nps_metrics :: "order_row list \<Rightarrow> metrics" where
  "calc_nps_metrics g =
     (case raw_rates g of (dr, pr, n) \<Rightarrow>
        \<lparr> order_count = length g,
          effective_denominator = py_round (sum_denominator g) 2,
          detractor_count = py_int (sum_detractor g),
          promoter_score_sum = py_round (sum_promoter g) 2,
          detractor_rate = py_round (dr * 100) 2,
          promoter_rate = py_round (pr * 100) 2,
          nps = py_round n 2 \<rparr>)"

subsection \<open>Loading: \<open>load_excel\<close> and \<open>_calculate_overall_nps\<close> (lines 23-41)\<close>

text \<open>What \<open>pd.read_excel\<close> does with the uploaded buffer: it raises (with a message),
  or it returns a frame.\<close>

datatype excel_source = Unreadable string | Sheet dataframe

text \<open>The three message formats of \<open>load_excel\<close>: missing columns (line 29), success
  with the record count and the number of distinct supplier names (line 31), read error
  (line 33).\<close>

datatype load_message =
    MissingColumns "column list"
  | Loaded nat nat
  | ReadError string

text \<open>\<open>_calculate_overall_nps\<close> reads \<open>self.df\<close>; its only caller has just set it.\<close>

definition calculate_overall_nps :: "analyzer \<Rightarrow> analyzer" where
  "calculate_overall_nps a =
     (case df a of
        None \<Rightarrow> a
      | Some d \<Rightarrow>
          (let total_denominator = sum_denominator (rows d)
           in if total_denominator > 0
              then (let total_detractor = sum_detractor (rows d);
                        total_promoter = sum_promoter (rows d)
                    in a\<lparr>overall_nps :=
                           ((total_promoter / total_denominator)
                             - (total_detractor / total_denominator)) * 100\<rparr>)
              else a))"

definition load_excel :: "analyzer \<Rightarrow> excel_source \<Rightarrow> analyzer \<times> bool \<times> load_message" where
  "load_excel a src =
     (case src of
        Unreadable e \<Rightarrow> (a, False, ReadError e)
      | Sheet d \<Rightarrow>
          (let a1 = a\<lparr>df := Some d\<rparr>;
               missing = filter (\<lambda>col. col \<notin> set (columns d)) REQUIRED_COLUMNS
           in if missing \<noteq> []
              then (a1, False, MissingColumns missing)
              else (calculate_overall_nps a1, True,
                    Loaded (length (rows d))
                           (length (remdups (map supplier_name (rows d)))))))"

subsection \<open>Supplier dimension: \<open>get_overall_analysis\<close> (lines 66-95)\<close>

record supplier_row =
  s_supplier_id :: int
  s_supplier_name :: string
  s_metrics :: metrics
  below_target :: bool
  s_contribution :: rat
  s_negative_contribution :: bool

record ranked_supplier_row =
  entry :: supplier_row
  rank :: nat

text \<open>Lines 78-79: the weight and the unrounded contribution of one supplier group.\<close>

definition supplier_weight :: "order_row list \<Rightarrow> metrics \<Rightarrow> rat" where
  "supplier_weight all_rows m =
     (if sum_denominator all_rows > 0
      then effective_denominator m / sum_denominator all_rows else 0)"

definition supplier_contribution :: "analyzer \<Rightarrow> order_row list \<Rightarrow> metrics \<Rightarrow> rat" where
  "supplier_contribution a all_rows m = (nps m - overall_nps a) * supplier_weight all_rows m"

definition supplier_entry :: "analyzer \<Rightarrow> order_row list \<Rightarrow> (int \<times> string) \<times> order_row list \<Rightarrow> supplier_row" where
  "supplier_entry a all_rows kg =
     (case kg of ((sid, sname), g) \<Rightarrow>
        (let m = calc_nps_metrics g;
             contribution = supplier_contribution a all_rows m
         in \<lparr> s_supplier_id = sid,
              s_supplier_name = sname,
              s_metrics = m,
              below_target = (nps m < of_int (nps_target a)),
              s_contribution = py_round contribution 4,
              s_negative_contribution = (contribution < 0) \<rparr>))"

text \<open>Lines 92-93: \<open>enumerate(results, 1)\<close> writes the rank into each entry.\<close>

definition assign_ranks :: "supplier_row list \<Rightarrow> ranked_supplier_row list" where
  "assign_ranks rs = map (\<lambda>(i, r). \<lparr> entry = r, rank = i \<rparr>) (List.enumerate 1 rs)"

definition get_overall_analysis :: "analyzer \<Rightarrow> error + ranked_supplier_row list" where
  "get_overall_analysis a =
     (case df a of
        None \<Rightarrow> Inr []
      | Some d \<Rightarrow>
          if has_columns d [SupplierId, SupplierName]
          then (let grouped = groupby (\<lambda>r. (supplier_id r, supplier_name r)) (rows d)
                in if grouped = [] then Inr []
                   else if has_columns d [DenominatorV5, DetractorV5, PromoterV5]
                   then Inr (assign_ranks
                               (sort_reverse (\<lambda>r. nps (s_metrics r))
                                  (map (supplier_entry a (rows d)) grouped)))
                   else Inl KeyError)
          else Inl KeyError)"

subsection \<open>Supplier list: \<open>get_supplier_list\<close> (lines 97-105)\<close>

definition get_supplier_list :: "analyzer \<Rightarrow> error + (int \<times> string \<times> nat) list" where
  "get_supplier_list a =
     (case df a of
        None \<Rightarrow> Inr []
      | Some d \<Rightarrow>
          if has_columns d [SupplierId, SupplierName]
          then Inr (map (\<lambda>((sid, sname), g). (sid, sname, length g))
                        (groupby (\<lambda>r. (supplier_id r, supplier_name r)) (rows d)))
          else Inl KeyError)"

subsection \<open>Order classifier: \<open>get_followup_management\<close> (lines 107-150)\<close>

text \<open>The third priority label interpolates the weight (line 127).\<close>

datatype priority_desc = Denominator1Detractor | Denominator06 | DenominatorOther rat

datatype followup_type = SolicitPositiveReview | ConvertDetractor | NoFollowupNeeded

record followup_row =
  f_order_no :: string
  priority :: int
  priority_description :: priority_desc
  followup :: followup_type
  f_denominator :: rat
  is_detractor :: bool
  f_has_feedback :: bool
  promoter_score :: rat

text \<open>Lines 119-127.\<close>

definition classify_priority :: "order_row \<Rightarrow> int \<times> priority_desc" where
  "classify_priority row =
     (if denominator_v5 row = 1 \<and> detractor_v5 row = 1 then (1, Denominator1Detractor)
      else if denominator_v5 row = 6 / 10 then (2, Denominator06)
      else (3, DenominatorOther (denominator_v5 row)))"

text \<open>Lines 130-135.\<close>

definition classify_followup :: "order_row \<Rightarrow> followup_type" where
  "classify_followup row =
     (if has_feedback row = 0 then SolicitPositiveReview
      else if has_feedback row = 1 \<and> detractor_v5 row = 1 then ConvertDetractor
      else NoFollowupNeeded)"

definition followup_entry :: "order_row \<Rightarrow> followup_row" where
  "followup_entry row =
     (case classify_priority row of (p, desc) \<Rightarrow>
        \<lparr> f_order_no = order_no row,
          priority = p,
          priority_description = desc,
          followup = classify_followup row,
          f_denominator = denominator_v5 row,
          is_detractor = (detractor_v5 row = 1),
          f_has_feedback = (has_feedback row = 1),
          promoter_score = promoter_v5 row \<rparr>)"

definition get_followup_management :: "analyzer \<Rightarrow> int \<Rightarrow> error + followup_row list" where
  "get_followup_management a sid =
     (case df a of
        None \<Rightarrow> Inr []
      | Some d \<Rightarrow>
          if has_columns d [SupplierId]
          then (let supplier_df = filter (\<lambda>r. supplier_id r = sid) (rows d)
                in if supplier_df = [] then Inr []
                   else if has_columns d [DenominatorV5, DetractorV5, HasFeedback, OrderNo, PromoterV5]
                   then Inr (sort_key (\<lambda>x. (priority x, - f_denominator x))
                                      (map followup_entry supplier_df))
                   else Inl KeyError)
          else Inl KeyError)"

subsection \<open>Date dimension: \<open>get_date_dimension\<close> (lines 152-204)\<close>

datatype trend = Improved | Declined | Unchanged | FirstDate

record date_row =
  d_date :: date
  d_order_count :: nat
  d_effective_denominator :: rat
  d_detractor_count :: int
  d_promoter_score_sum :: rat
  daily_nps :: rat
  cumulative_nps :: rat
  is_improved :: trend

text \<open>Lines 180-184, on the running totals.\<close>

definition cumulative_value :: "rat \<Rightarrow> int \<Rightarrow> rat \<Rightarrow> rat" where
  "cumulative_value cumulative_denominator cumulative_detractor cumulative_promoter =
     (if cumulative_denominator > 0
      then ((cumulative_promoter / cumulative_denominator)
             - (of_int cumulative_detractor / cumulative_denominator)) * 100
      else 0)"

text \<open>The loop of lines 171-202 over the dates in ascending order; the arguments after
  the list are the running denominator, detractor count, promoter sum and \<open>prev_nps\<close>.\<close>

fun date_loop :: "(date \<times> order_row list) list \<Rightarrow> rat \<Rightarrow> int \<Rightarrow> rat \<Rightarrow> rat option \<Rightarrow> date_row list" where
  "date_loop [] cd ct cp prev_nps = []"
| "date_loop ((day, g) # rest) cd ct cp prev_nps =
     (let m = calc_nps_metrics g;
          cd' = cd + effective_denominator m;
          ct' = ct + detractor_count m;
          cp' = cp + promoter_score_sum m;
          c = cumulative_value cd' ct' cp';
          improved = (case prev_nps of
                        Some p \<Rightarrow> if c > p then Improved
                                  else if c < p then Declined else Unchanged
                      | None \<Rightarrow> FirstDate)
      in \<lparr> d_date = day,
           d_order_count = order_count m,
           d_effective_denominator = effective_denominator m,
           d_detractor_count = detractor_count m,
           d_promoter_score_sum = promoter_score_sum m,
           daily_nps = nps m,
           cumulative_nps = py_round c 2,
           is_improved = improved \<rparr>
         # date_loop rest cd' ct' cp' (Some c))"

definition get_date_dimension :: "analyzer \<Rightarrow> int \<Rightarrow> error + date_row list" where
  "get_date_dimension a sid =
     (case df a of
        None \<Rightarrow> Inr []
      | Some d \<Rightarrow>
          if has_columns d [SupplierId]
          then (let supplier_df = filter (\<lambda>r. supplier_id r = sid) (rows d)
                in if supplier_df = [] then Inr []
                   else if has_columns d [TravelDate, DenominatorV5, DetractorV5, PromoterV5]
                   then Inr (date_loop (groupby travel_date supplier_df) 0 0 0 None)
                   else Inl KeyError)
          else Inl KeyError)"

subsection \<open>Sub-account and follower dimensions (lines 206-276)\<close>

record group_row =
  g_id :: int
  g_name :: string
  g_metrics :: metrics
  g_contribution :: rat
  g_negative_contribution :: bool

text \<open>Lines 227-228 and 263-264: the weight and the unrounded contribution of a group
  within its supplier.\<close>

definition group_weight :: "metrics \<Rightarrow> metrics \<Rightarrow> rat" where
  "group_weight supplier_metrics m =
     (if effective_denominator supplier_metrics > 0
      then effective_denominator m / effective_denominator supplier_metrics else 0)"

definition group_contribution :: "metrics \<Rightarrow> metrics \<Rightarrow> rat" where
  "group_contribution supplier_metrics m =
     (nps m - nps supplier_metrics) * group_weight supplier_metrics m"

text \<open>The loop body shared, word for word, by the two functions (lines 223-236 and
  259-272).\<close>

definition group_entry :: "metrics \<Rightarrow> (int \<times> string) \<times> order_row list \<Rightarrow> group_row" where
  "group_entry supplier_metrics kg =
     (case kg of ((gid, gname), g) \<Rightarrow>
        (let m = calc_nps_metrics g;
             contribution = group_contribution supplier_metrics m
         in \<lparr> g_id = gid,
              g_name = gname,
              g_metrics = m,
              g_contribution = py_round contribution 4,
              g_negative_contribution = (nps m < nps supplier_metrics) \<rparr>))"

definition get_account_dimension :: "analyzer \<Rightarrow> int \<Rightarrow> error + group_row list" where
  "get_account_dimension a sid =
     (case df a of
        None \<Rightarrow> Inr []
      | Some d \<Rightarrow>
          if has_columns d [SupplierId]
          then (let supplier_df = filter (\<lambda>r. supplier_id r = sid) (rows d)
                in if supplier_df = [] then Inr []
                   else if has_columns d [DenominatorV5, DetractorV5, PromoterV5,
                                          SubAccountUid, SubAccountName]
                   then (let supplier_metrics = calc_nps_metrics supplier_df;
                             grouped = groupby (\<lambda>r. (account_uid r, account_name r)) supplier_df
                         in Inr (sort_reverse (\<lambda>x. nps (g_metrics x))
                                   (map (group_entry supplier_metrics) grouped)))
                   else Inl KeyError)
          else Inl KeyError)"

definition get_follower_dimension :: "analyzer \<Rightarrow> int \<Rightarrow> error + group_row list" where
  "get_follower_dimension a sid =
     (case df a of
        None \<Rightarrow> Inr []
      | Some d \<Rightarrow>
          if has_columns d [SupplierId]
          then (let supplier_df = filter (\<lambda>r. supplier_id r = sid) (rows d)
                in if supplier_df = [] then Inr []
                   else if has_columns d [DenominatorV5, DetractorV5, PromoterV5,
                                          FollowerId, FollowerName]
                   then (let supplier_metrics = calc_nps_metrics supplier_df;
                             grouped = groupby (\<lambda>r. (follower_id r, follower_name r)) supplier_df
                         in Inr (sort_reverse (\<lambda>x. nps (g_metrics x))
                                   (map (group_entry supplier_metrics) grouped)))
                   else Inl KeyError)
          else Inl KeyError)"

subsection \<open>The web shell (src/app.py)\<close>

text \<open>The module-level \<open>analyzer\<close> is \<open>None\<close> until the first upload or query. A route
  answers with its body (JSON, a CSV file or a ZIP archive); an exception that leaves the
  route, raised by the analyzer or by \<open>jsonify\<close>, is the server's error response.\<close>

type_synonym app = "analyzer option"

datatype upload_error = NoFileSelected | NotExcelFile

datatype 'a response =
    NoData
  | Refused upload_error
  | Rejected load_message
  | UnknownDownloadType
  | Success 'a
  | ServerError error

text \<open>
  What \<open>jsonify\<close> cannot serialise. \<open>pd.read_excel\<close> holds a numeric column as int64
  when every cell is a whole number and as float64 otherwise (cells are within the int64
  range). The sum of an int64 column is a \<open>numpy.int64\<close>, and so is its \<open>round(..., 2)\<close>:
  that is the effective denominator of every metrics snapshot (line 58), and the promoter
  sum (line 60) when the promoter column is int64 as well. \<open>jsonify\<close> raises \<open>TypeError\<close>
  on a \<open>numpy.int64\<close>. Every other value of the tables is a string, a Python number or a
  \<open>numpy.float64\<close> (a \<open>float\<close>), which it serialises: counts and ids come from \<open>len\<close>,
  \<open>int\<close> and \<open>str\<close>; rates, nps, cumulative nps, weights and contributions come from
  true division or from the literal 0; the cells of the follow-up table are read from
  rows of a frame of mixed column types, which hold Python numbers.
\<close>

definition whole :: "rat \<Rightarrow> bool" where
  "whole x = (of_int \<lfloor>x\<rfloor> = x)"

definition int64_denominator :: "dataframe \<Rightarrow> bool" where
  "int64_denominator d = list_all (\<lambda>r. whole (denominator_v5 r)) (rows d)"

text \<open>\<open>get_analyzer\<close> (lines 17-21) creates the default analyzer on first use.\<close>

definition get_analyzer :: "app \<Rightarrow> app \<times> analyzer" where
  "get_analyzer g =
     (case g of
        None \<Rightarrow> (Some (NPSAnalyzer 60), NPSAnalyzer 60)
      | Some a \<Rightarrow> (Some a, a))"

text \<open>\<open>str.endswith\<close>.\<close>

definition endswith :: "string \<Rightarrow> string \<Rightarrow> bool" where
  "endswith s suffix =
     (length suffix \<le> length s \<and> drop (length s - length suffix) s = suffix)"

text \<open>The upload request: the posted file, if any, with its name and what
  \<open>pd.read_excel\<close> makes of it, and the form's \<open>nps_target\<close> field, if any (a decimal
  integer).\<close>

record upload_request =
  file_part :: "(string \<times> excel_source) option"
  target_field :: "int option"

text \<open>\<open>upload_file\<close>, lines 29-58.\<close>

definition upload_file ::
  "app \<Rightarrow> upload_request \<Rightarrow> app \<times> (load_message \<times> rat \<times> (int \<times> string \<times> nat) list) response" where
  "upload_file g request =
     (case file_part request of
        None \<Rightarrow> (g, Refused NoFileSelected)
      | Some (filename, file) \<Rightarrow>
          if filename = [] then (g, Refused NoFileSelected)
          else if endswith filename ''.xlsx'' \<or> endswith filename ''.xls''
          then (let target = (case target_field request of None \<Rightarrow> 60 | Some t \<Rightarrow> t)
                in case load_excel (NPSAnalyzer target) file of
                     (a, success, message) \<Rightarrow>
                       if success
                       then (case get_supplier_list a of
                               Inl e \<Rightarrow> (Some a, ServerError e)
                             | Inr suppliers \<Rightarrow>
                                 (Some a, Success (message, py_round (overall_nps a) 2, suppliers)))
                       else (Some a, Rejected message))
          else (g, Refused NotExcelFile))"

text \<open>\<open>set_target\<close>, lines 61-70.\<close>

definition set_target :: "app \<Rightarrow> int \<Rightarrow> app \<times> int response" where
  "set_target g target =
     (case g of
        Some a \<Rightarrow> (Some (a\<lparr>nps_target := target\<rparr>), Success target)
      | None \<Rightarrow> (None, NoData))"

text \<open>\<open>get_overall\<close>, lines 73-85. The supplier table carries metrics snapshots.\<close>

definition get_overall :: "app \<Rightarrow> app \<times> (ranked_supplier_row list \<times> rat \<times> int) response" where
  "get_overall g =
     (case get_analyzer g of
        (g', a) \<Rightarrow>
          (case df a of
             None \<Rightarrow> (g', NoData)
           | Some d \<Rightarrow>
               (case get_overall_analysis a of
                  Inl e \<Rightarrow> (g', ServerError e)
                | Inr data \<Rightarrow>
                    if data \<noteq> [] \<and> int64_denominator d
                    then (g', ServerError TypeError)
                    else (g', Success (data, py_round (overall_nps a) 2, nps_target a)))))"

text \<open>\<open>get_supplier\<close>, lines 88-100: the four scoped tables, evaluated in source order,
  then serialised together. The date, sub-account and follower tables carry metrics
  snapshots; the follow-up table does not.\<close>

definition get_supplier ::
  "app \<Rightarrow> int \<Rightarrow> app \<times> (followup_row list \<times> date_row list \<times> group_row list \<times> group_row list) response" where
  "get_supplier g sid =
     (case get_analyzer g of
        (g', a) \<Rightarrow>
          (case df a of
             None \<Rightarrow> (g', NoData)
           | Some d \<Rightarrow>
               (case get_followup_management a sid of
                  Inl e \<Rightarrow> (g', ServerError e)
                | Inr fu \<Rightarrow>
                    (case get_date_dimension a sid of
                       Inl e \<Rightarrow> (g', ServerError e)
                     | Inr dd \<Rightarrow>
                         (case get_account_dimension a sid of
                            Inl e \<Rightarrow> (g', ServerError e)
                          | Inr ad \<Rightarrow>
                              (case get_follower_dimension a sid of
                                 Inl e \<Rightarrow> (g', ServerError e)
                               | Inr fd \<Rightarrow>
                                   if int64_denominator d \<and> (dd \<noteq> [] \<or> ad \<noteq> [] \<or> fd \<noteq> [])
                                   then (g', ServerError TypeError)
                                   else (g', Success (fu, dd, ad, fd))))))))"

text \<open>
  The download routes answer with CSV text. \<open>to_csv\<close> (lines 278-285) renders a table
  under the route's fixed list of columns, and the empty table as the empty string; a
  file is represented by the table it renders. Rendering goes through pandas and raises
  nothing on the values of the tables.
\<close>

datatype csv_file =
    OverallCsv "ranked_supplier_row list"
  | FollowupCsv "followup_row list"
  | DateCsv "date_row list"
  | AccountCsv "group_row list"
  | FollowerCsv "group_row list"

text \<open>\<open>download_overall\<close>, lines 103-118.\<close>

definition download_overall :: "app \<Rightarrow> app \<times> csv_file response" where
  "download_overall g =
     (case get_analyzer g of
        (g', a) \<Rightarrow>
          if df a = None then (g', NoData)
          else (case get_overall_analysis a of
                  Inl e \<Rightarrow> (g', ServerError e)
                | Inr data \<Rightarrow> (g', Success (OverallCsv data))))"

text \<open>\<open>download_supplier\<close>, lines 121-155; the supplier id is part of the name of the
  file.\<close>

definition download_supplier :: "app \<Rightarrow> int \<Rightarrow> string \<Rightarrow> app \<times> (int \<times> csv_file) response" where
  "download_supplier g sid dtype =
     (case get_analyzer g of
        (g', a) \<Rightarrow>
          if df a = None then (g', NoData)
          else if dtype = ''followup''
          then (case get_followup_management a sid of
                  Inl e \<Rightarrow> (g', ServerError e)
                | Inr data \<Rightarrow> (g', Success (sid, FollowupCsv data)))
          else if dtype = ''date''
          then (case get_date_dimension a sid of
                  Inl e \<Rightarrow> (g', ServerError e)
                | Inr data \<Rightarrow> (g', Success (sid, DateCsv data)))
          else if dtype = ''account''
          then (case get_account_dimension a sid of
                  Inl e \<Rightarrow> (g', ServerError e)
                | Inr data \<Rightarrow> (g', Success (sid, AccountCsv data)))
          else if dtype = ''follower''
          then (case get_follower_dimension a sid of
                  Inl e \<Rightarrow> (g', ServerError e)
                | Inr data \<Rightarrow> (g', Success (sid, FollowerCsv data)))
          else (g', UnknownDownloadType))"

text \<open>\<open>generate_all_csvs\<close> (lines 287-334). An entry of the archive is a file and the
  directory of the supplier it belongs to (none for the overall table); the directory is
  named by the first 20 characters of the supplier's name, slashes and backslashes
  replaced by underscores (line 303). A table is written only when it is not empty.\<close>

type_synonym zip_entry = "string option \<times> csv_file"

definition directory_name :: "string \<Rightarrow> string" where
  "directory_name name =
     map (\<lambda>c. if c = CHR ''/'' \<or> c = CHR 0x5C then CHR ''_'' else c) (take 20 name)"

text \<open>The loop of lines 301-331 over the supplier list.\<close>

fun supplier_files :: "analyzer \<Rightarrow> (int \<times> string \<times> nat) list \<Rightarrow> error + zip_entry list" where
  "supplier_files a [] = Inr []"
| "supplier_files a ((sid, name, n) # rest) =
     (let sname = directory_name name
      in case get_followup_management a sid of
           Inl e \<Rightarrow> Inl e
         | Inr followup_list \<Rightarrow>
             (case get_date_dimension a sid of
                Inl e \<Rightarrow> Inl e
              | Inr date_dim \<Rightarrow>
                  (case get_account_dimension a sid of
                     Inl e \<Rightarrow> Inl e
                   | Inr account_dim \<Rightarrow>
                       (case get_follower_dimension a sid of
                          Inl e \<Rightarrow> Inl e
                        | Inr follower_dim \<Rightarrow>
                            (case supplier_files a rest of
                               Inl e \<Rightarrow> Inl e
                             | Inr others \<Rightarrow>
                                 Inr ((if followup_list = [] then []
                                       else [(Some sname, FollowupCsv followup_list)])
                                      @ (if date_dim = [] then []
                                         else [(Some sname, DateCsv date_dim)])
                                      @ (if account_dim = [] then []
                                         else [(Some sname, AccountCsv account_dim)])
                                      @ (if follower_dim = [] then []
                                         else [(Some sname, FollowerCsv follower_dim)])
                                      @ others))))))"

definition generate_all_csvs :: "analyzer \<Rightarrow> error + zip_entry list" where
  "generate_all_csvs a =
     (case get_overall_analysis a of
        Inl e \<Rightarrow> Inl e
      | Inr overall \<Rightarrow>
          (case get_supplier_list a of
             Inl e \<Rightarrow> Inl e
           | Inr suppliers \<Rightarrow>
               (case supplier_files a suppliers of
                  Inl e \<Rightarrow> Inl e
                | Inr files \<Rightarrow>
                    Inr ((if overall = [] then [] else [(None, OverallCsv overall)]) @ files))))"

text \<open>\<open>download_all\<close>, lines 158-170.\<close>

definition download_all :: "app \<Rightarrow> app \<times> zip_entry list response" where
  "download_all g =
     (case get_analyzer g of
        (g', a) \<Rightarrow>
          if df a = None then (g', NoData)
          else (case generate_all_csvs a of
                  Inl e \<Rightarrow> (g', ServerError e)
                | Inr archive \<Rightarrow> (g', Success archive)))"

subsection \<open>Comparing answers up to the below-target flag\<close>

definition clear_below_target :: "ranked_supplier_row \<Rightarrow> ranked_supplier_row" where
  "clear_below_target r = r\<lparr>entry := (entry r)\<lparr>below_target := False\<rparr>\<rparr>"

subsection \<open>Example data\<close>

text \<open>An order of supplier \<open>sid\<close> (named \<open>sname\<close>), handled by sub-account and follower
  \<open>uid\<close> on \<open>day\<close>, with weight \<open>w\<close>, detractor flag \<open>dt\<close>, promoter score \<open>p\<close> and
  feedback flag \<open>fb\<close>.\<close>

definition order :: "int \<Rightarrow> string \<Rightarrow> int \<Rightarrow> date \<Rightarrow> rat \<Rightarrow> rat \<Rightarrow> rat \<Rightarrow> rat \<Rightarrow> order_row" where
  "order sid sname uid day w dt p fb =
     \<lparr> order_no = ''n'', supplier_id = sid, supplier_name = sname,
       account_uid = uid, account_name = ''u'', travel_date = day,
       follower_id = uid, follower_name = ''f'',
       denominator_v5 = w, detractor_v5 = dt, promoter_v5 = p, has_feedback = fb \<rparr>"

text \<open>The worked example of the specification: supplier A with weights 1, 1, detractor
  flags 1, 0 and promoter scores 0, 1; supplier B with one promoter row.\<close>

definition two_suppliers :: dataframe where
  "two_suppliers =
     \<lparr> columns = REQUIRED_COLUMNS,
       rows = [order 1 ''A'' 1 (2024, 1, 1) 1 1 0 1,
               order 1 ''A'' 1 (2024, 1, 2) 1 0 1 0,
               order 2 ''B'' 2 (2024, 1, 1) 1 0 1 0] \<rparr>"

text \<open>A sheet whose order-number column is absent.\<close>

definition sheet_without_order_no :: dataframe where
  "sheet_without_order_no =
     \<lparr> columns = [SupplierId, SupplierName, SubAccountUid, SubAccountName,
                  TravelDate, FollowerId, FollowerName, DenominatorV5, DetractorV5,
                  PromoterV5, HasFeedback],
       rows = [order 1 ''A'' 1 (2024, 1, 1) 1 0 1 0] \<rparr>"

text \<open>One supplier with a sub-account (and follower) whose only order has weight 0.\<close>

definition zero_weight_account :: dataframe where
  "zero_weight_account =
     \<lparr> columns = REQUIRED_COLUMNS,
       rows = [order 1 ''A'' 1 (2024, 1, 1) 1 0 1 0,
               order 1 ''A'' 2 (2024, 1, 1) 0 0 0 0] \<rparr>"

text \<open>One order of weight 1 with promoter score 5/16 (0.3125).\<close>

definition single_order :: dataframe where
  "single_order =
     \<lparr> columns = REQUIRED_COLUMNS,
       rows = [order 1 ''A'' 1 (2024, 1, 1) 1 0 (5 / 16) 0] \<rparr>"

text \<open>A detractor order of weight 0.6.\<close>

definition light_detractor :: order_row where
  "light_detractor = order 1 ''A'' 1 (2024, 1, 1) (6 / 10) 1 0 1"

text \<open>A valid sheet whose only order has weight 0.\<close>

definition idle_sheet :: dataframe where
  "idle_sheet =
     \<lparr> columns = REQUIRED_COLUMNS,
       rows = [order 1 ''A'' 1 (2024, 1, 1) 0 0 0 0] \<rparr>"

section \<open>Properties\<close>

subsection \<open>Auxiliary facts\<close>

lemma py_round_zero: "py_round 0 n = 0"
  by (simp add: py_round_def round_half_even_def)

lemma missing_empty_iff:
  "filter (\<lambda>col. col \<notin> set (columns d)) REQUIRED_COLUMNS = [] \<longleftrightarrow> has_columns d REQUIRED_COLUMNS"
  by (simp add: has_columns_def filter_empty_conv list_all_iff)

lemma has_columns_sub:
  "has_columns d cs \<Longrightarrow> set cs' \<subseteq> set cs \<Longrightarrow> has_columns d cs'"
  by (auto simp: has_columns_def list_all_iff)

lemma required_set:
  "set REQUIRED_COLUMNS = {OrderNo, SupplierId, SupplierName, SubAccountUid, SubAccountName,
      TravelDate, FollowerId, FollowerName, DenominatorV5, DetractorV5, PromoterV5, HasFeedback}"
  by (simp add: REQUIRED_COLUMNS_def)

lemma raw_rates_zero: "sum_denominator g = 0 \<Longrightarrow> raw_rates g = (0, 0, 0)"
  by (simp add: raw_rates_def)

lemma load_excel_valid:
  "has_columns d REQUIRED_COLUMNS \<Longrightarrow>
   load_excel a (Sheet d) =
     (calculate_overall_nps (a\<lparr>df := Some d\<rparr>), True,
      Loaded (length (rows d)) (length (remdups (map supplier_name (rows d)))))"
  by (simp add: load_excel_def Let_def missing_empty_iff)

lemma load_excel_invalid:
  "\<not> has_columns d REQUIRED_COLUMNS \<Longrightarrow>
   load_excel a (Sheet d) =
     (a\<lparr>df := Some d\<rparr>, False,
      MissingColumns (filter (\<lambda>col. col \<notin> set (columns d)) REQUIRED_COLUMNS))"
  by (simp add: load_excel_def Let_def missing_empty_iff)

lemma df_calculate_overall_nps: "df (calculate_overall_nps a) = df a"
  by (simp add: calculate_overall_nps_def Let_def split: option.split)

text \<open>A successful load leaves a frame with every required column in the analyzer.\<close>

lemma load_excel_success:
  assumes "load_excel a0 src = (a, True, msg)"
  shows "\<exists>d. src = Sheet d \<and> df a = Some d \<and> has_columns d REQUIRED_COLUMNS"
proof (cases src)
  case (Unreadable e)
  with assms show ?thesis by (simp add: load_excel_def)
next
  case (Sheet d)
  show ?thesis
  proof (cases "has_columns d REQUIRED_COLUMNS")
    case True
    with assms Sheet show ?thesis
      by (auto simp: load_excel_valid df_calculate_overall_nps)
  next
    case False
    with assms Sheet show ?thesis by (simp add: load_excel_invalid)
  qed
qed

text \<open>The example sheets.\<close>

lemma two_suppliers_valid: "has_columns two_suppliers REQUIRED_COLUMNS"
  by (simp add: has_columns_def two_suppliers_def REQUIRED_COLUMNS_def)

lemma idle_sheet_valid: "has_columns idle_sheet REQUIRED_COLUMNS"
  by (simp add: has_columns_def idle_sheet_def REQUIRED_COLUMNS_def)

lemma sheet_without_order_no_invalid: "\<not> has_columns sheet_without_order_no REQUIRED_COLUMNS"
  by (simp add: has_columns_def sheet_without_order_no_def REQUIRED_COLUMNS_def)

lemma two_suppliers_analysis:
  "get_overall_analysis \<lparr> nps_target = 60, df = Some two_suppliers, overall_nps = 100 / 3 \<rparr> =
     Inr [\<lparr> entry = \<lparr> s_supplier_id = 2, s_supplier_name = ''B'',
                       s_metrics = \<lparr> order_count = 1, effective_denominator = 1,
                                     detractor_count = 0, promoter_score_sum = 1,
                                     detractor_rate = 0, promoter_rate = 100, nps = 100 \<rparr>,
                       below_target = False, s_contribution = 111111 / 5000,
                       s_negative_contribution = False \<rparr>,
            rank = 1 \<rparr>,
          \<lparr> entry = \<lparr> s_supplier_id = 1, s_supplier_name = ''A'',
                       s_metrics = \<lparr> order_count = 2, effective_denominator = 2,
                                     detractor_count = 1, promoter_score_sum = 1,
                                     detractor_rate = 50, promoter_rate = 50, nps = 0 \<rparr>,
                       below_target = True, s_contribution = - (111111 / 5000),
                       s_negative_contribution = True \<rparr>,
            rank = 2 \<rparr>]"
  by code_simp

subsection \<open>Sorting, ranking and grouping\<close>

lemma sort_reverse_sorted: "sorted (rev (map key (sort_reverse key xs)))"
  by (simp add: sort_reverse_def rev_map)

lemma sort_reverse_stable:
  "filter (\<lambda>y. key y = v) (sort_reverse key xs) = filter (\<lambda>y. key y = v) xs"
  by (simp add: sort_reverse_def rev_filter [symmetric] sort_key_stable)

lemma length_sort_reverse: "length (sort_reverse key xs) = length xs"
  by (simp add: sort_reverse_def)

lemma insort_key_map:
  "(\<And>x. k (f x) = k' x) \<Longrightarrow> insort_key k (f x) (map f xs) = map f (insort_key k' x xs)"
  by (induction xs) auto

lemma sort_key_map:
  "(\<And>x. k (f x) = k' x) \<Longrightarrow> sort_key k (map f xs) = map f (sort_key k' xs)"
  by (induction xs) (simp_all add: insort_key_map)

lemma sort_reverse_map:
  assumes "\<And>x. k (f x) = k' x"
  shows "sort_reverse k (map f xs) = map f (sort_reverse k' xs)"
proof -
  have "sort_key k (map f (rev xs)) = map f (sort_key k' (rev xs))"
    using assms by (rule sort_key_map)
  then show ?thesis by (simp add: sort_reverse_def rev_map)
qed

lemma rank_assign_ranks: "map rank (assign_ranks rs) = [1..<Suc (length rs)]"
proof -
  have "rank \<circ> (\<lambda>(i, r). \<lparr> entry = r, rank = i \<rparr>) = fst" by auto
  then show ?thesis by (simp add: assign_ranks_def map_fst_enumerate)
qed

lemma entry_assign_ranks: "map entry (assign_ranks rs) = rs"
proof -
  have "entry \<circ> (\<lambda>(i, r). \<lparr> entry = r, rank = i \<rparr>) = snd" by auto
  then show ?thesis by (simp add: assign_ranks_def map_snd_enumerate)
qed



lemma assign_ranks_map_clear:
  "map clear_below_target (assign_ranks rs) = assign_ranks (map (\<lambda>r. r\<lparr>below_target := False\<rparr>) rs)"
proof -
  have "map clear_below_target (map (\<lambda>(i, r). \<lparr> entry = r, rank = i \<rparr>) (zip is rs))
      = map (\<lambda>(i, r). \<lparr> entry = r, rank = i \<rparr>) (zip is (map (\<lambda>r. r\<lparr>below_target := False\<rparr>) rs))"
    for "is" :: "nat list"
  proof (induction rs arbitrary: "is")
    case Nil
    show ?case by simp
  next
    case (Cons r rs)
    show ?case
    proof (cases "is")
      case Nil
      then show ?thesis by simp
    next
      case (Cons i js)
      with Cons.IH [of js] show ?thesis by (simp add: clear_below_target_def)
    qed
  qed
  then show ?thesis by (simp add: assign_ranks_def enumerate_eq_zip)
qed

lemma length_groupby: "length (groupby key rs) = card (key ` set rs)"
  by (simp add: groupby_def length_remdups_card_conv)

lemma groupby_empty: "groupby key rs = [] \<longleftrightarrow> rs = []"
proof -
  have "length (groupby key rs) = 0 \<longleftrightarrow> rs = []"
    by (simp add: length_groupby)
  then show ?thesis by simp
qed

lemma supplier_entry_target:
  "(supplier_entry (a\<lparr>nps_target := t\<rparr>) rs kg)\<lparr>below_target := False\<rparr>
     = (supplier_entry a rs kg)\<lparr>below_target := False\<rparr>"
  by (simp add: supplier_entry_def supplier_contribution_def Let_def split: prod.split)


lemma supplier_entry_key:
  "(s_supplier_id (supplier_entry a rs kg), s_supplier_name (supplier_entry a rs kg)) = fst kg"
  by (simp add: supplier_entry_def Let_def split: prod.split)

lemma map_fst_groupby: "map fst (groupby key rs) = sort (remdups (map key rs))"
  by (simp add: groupby_def comp_def)

lemma length_assign_ranks: "length (assign_ranks rs) = length rs"
  by (simp add: assign_ranks_def)

subsection \<open>Rounding and the sums of a group\<close>

lemma round_half_even_nonneg: "0 \<le> x \<Longrightarrow> 0 \<le> round_half_even x"
  by (simp add: round_half_even_def Let_def)

lemma round_half_even_le:
  assumes "x \<le> of_int m"
  shows "round_half_even x \<le> m"
proof -
  have f: "\<lfloor>x\<rfloor> \<le> m" using assms by (simp add: floor_le_iff)
  show ?thesis
  proof (cases "x - of_int \<lfloor>x\<rfloor> < 1 / 2")
    case True
    with f show ?thesis by (simp add: round_half_even_def Let_def)
  next
    case False
    then have "of_int \<lfloor>x\<rfloor> < x" by linarith
    with assms have "of_int \<lfloor>x\<rfloor> < (of_int m :: rat)" by linarith
    then have "\<lfloor>x\<rfloor> < m" by simp
    then show ?thesis by (simp add: round_half_even_def Let_def)
  qed
qed

lemma py_round_nonneg: "0 \<le> x \<Longrightarrow> 0 \<le> py_round x n"
  by (simp add: py_round_def round_half_even_nonneg)

lemma py_round_le_100: "x \<le> 100 \<Longrightarrow> py_round x 2 \<le> 100"
proof -
  assume "x \<le> 100"
  then have "x * 10 ^ 2 \<le> of_int 10000" by simp
  then have "round_half_even (x * 10 ^ 2) \<le> 10000" by (rule round_half_even_le)
  then have "(of_int (round_half_even (x * 10 ^ 2)) :: rat) \<le> 10000"
    by (metis of_int_le_iff of_int_numeral)
  then show ?thesis by (simp add: py_round_def)
qed


lemma sum_promoter_le_denominator:
  "\<forall>r\<in>set g. 0 \<le> denominator_v5 r \<and> promoter_v5 r \<le> 1 \<Longrightarrow> sum_promoter g \<le> sum_denominator g"
proof (induction g)
  case Nil
  show ?case by (simp add: sum_promoter_def sum_denominator_def)
next
  case (Cons r g)
  then have "promoter_v5 r * denominator_v5 r \<le> 1 * denominator_v5 r"
    by (intro mult_right_mono) simp_all
  with Cons show ?case by (simp add: sum_promoter_def sum_denominator_def)
qed

lemma sum_promoter_nonneg:
  "\<forall>r\<in>set g. 0 \<le> denominator_v5 r \<and> 0 \<le> promoter_v5 r \<Longrightarrow> 0 \<le> sum_promoter g"
  by (induction g) (simp_all add: sum_promoter_def)

lemma sum_detractor_nonneg:
  "\<forall>r\<in>set g. detractor_v5 r = 0 \<or> detractor_v5 r = 1 \<Longrightarrow> 0 \<le> sum_detractor g"
  by (induction g) (auto simp: sum_detractor_def)

lemma raw_rates_bounds:
  assumes "\<forall>r\<in>set g. 0 \<le> denominator_v5 r \<and> 0 \<le> promoter_v5 r \<and> promoter_v5 r \<le> 1
             \<and> (detractor_v5 r = 0 \<or> detractor_v5 r = 1)"
  shows "0 \<le> fst (raw_rates g)"
    and "0 \<le> fst (snd (raw_rates g))"
    and "fst (snd (raw_rates g)) \<le> 1"
    and "sum_detractor g \<le> sum_denominator g \<Longrightarrow> fst (raw_rates g) \<le> 1"
proof -
  have p: "sum_promoter g \<le> sum_denominator g" "0 \<le> sum_promoter g" "0 \<le> sum_detractor g"
    using assms
    by (simp_all add: sum_promoter_le_denominator sum_promoter_nonneg sum_detractor_nonneg)
  show "0 \<le> fst (raw_rates g)" using p by (simp add: raw_rates_def Let_def)
  show "0 \<le> fst (snd (raw_rates g))" using p by (simp add: raw_rates_def Let_def)
  show "fst (snd (raw_rates g)) \<le> 1" using p by (simp add: raw_rates_def Let_def)
  show "sum_detractor g \<le> sum_denominator g \<Longrightarrow> fst (raw_rates g) \<le> 1"
    by (simp add: raw_rates_def Let_def)
qed

lemma calc_nps_metrics_rates:
  "detractor_rate (calc_nps_metrics g) = py_round (fst (raw_rates g) * 100) 2"
  "promoter_rate (calc_nps_metrics g) = py_round (fst (snd (raw_rates g)) * 100) 2"
  "nps (calc_nps_metrics g) = py_round (snd (snd (raw_rates g))) 2"
  by (simp_all add: calc_nps_metrics_def split: prod.split)

lemma raw_rates_identity:
  "snd (snd (raw_rates g)) = (fst (snd (raw_rates g)) - fst (raw_rates g)) * 100"
  by (simp add: raw_rates_def Let_def)

subsection \<open>Degenerate denominators\<close>

text \<open>
  Claim C6. A subset of records whose total denominator weight is 0 is not an error for the
  metric calculator: the unrounded rates and nps are 0, and so are the reported detractor
  rate, promoter rate and nps. When that subset is the whole of a valid sheet, loading it
  into a new analyzer succeeds and leaves the overall baseline at 0.
\<close>

theorem zero_denominator_degenerate:
  assumes "sum_denominator g = 0"
  shows "raw_rates g = (0, 0, 0)
       \<and> detractor_rate (calc_nps_metrics g) = 0
       \<and> promoter_rate (calc_nps_metrics g) = 0
       \<and> nps (calc_nps_metrics g) = 0
       \<and> (has_columns d REQUIRED_COLUMNS \<and> rows d = g \<longrightarrow>
            load_excel (NPSAnalyzer t) (Sheet d) =
              (\<lparr> nps_target = t, df = Some d, overall_nps = 0 \<rparr>, True,
               Loaded (length g) (length (remdups (map supplier_name g)))))"
  using assms
  by (auto simp: raw_rates_zero calc_nps_metrics_def py_round_zero load_excel_valid
      calculate_overall_nps_def NPSAnalyzer_def)

theorem zero_denominator_degenerate_witness:
  "sum_denominator (rows idle_sheet) = 0
 \<and> has_columns idle_sheet REQUIRED_COLUMNS
 \<and> raw_rates (rows idle_sheet) = (0, 0, 0)
 \<and> detractor_rate (calc_nps_metrics (rows idle_sheet)) = 0
 \<and> promoter_rate (calc_nps_metrics (rows idle_sheet)) = 0
 \<and> nps (calc_nps_metrics (rows idle_sheet)) = 0
 \<and> load_excel (NPSAnalyzer 60) (Sheet idle_sheet) =
      (\<lparr> nps_target = 60, df = Some idle_sheet, overall_nps = 0 \<rparr>, True, Loaded 1 1)"
proof -
  have h: "sum_denominator (rows idle_sheet) = 0"
    by (simp add: sum_denominator_def idle_sheet_def order_def)
  have l: "length (rows idle_sheet) = 1"
    "length (remdups (map supplier_name (rows idle_sheet))) = 1"
    by (simp_all add: idle_sheet_def)
  from zero_denominator_degenerate [OF h, of idle_sheet 60] h idle_sheet_valid l
  show ?thesis by simp
qed

subsection \<open>Order classifier\<close>

text \<open>
  Claim C7. For every record the classifier takes the first matching rule: priority 1
  exactly when the weight is 1 and the detractor flag is 1; otherwise priority 2 exactly
  when the weight is 0.6; otherwise priority 3. Independently, the follow-up type is
  "solicit positive review" exactly when the feedback flag is 0, otherwise "convert
  detractor" exactly when the feedback flag is 1 and the detractor flag is 1, otherwise
  "no follow-up needed". On a loaded dataset the follow-up view of a supplier consists of
  exactly these labelled entries, one per order of the supplier.
\<close>

theorem order_classifier_first_match:
  "(priority (followup_entry row) = 1 \<longleftrightarrow> denominator_v5 row = 1 \<and> detractor_v5 row = 1)
 \<and> (priority (followup_entry row) = 2 \<longleftrightarrow>
       \<not> (denominator_v5 row = 1 \<and> detractor_v5 row = 1) \<and> denominator_v5 row = 6 / 10)
 \<and> (priority (followup_entry row) = 3 \<longleftrightarrow>
       \<not> (denominator_v5 row = 1 \<and> detractor_v5 row = 1) \<and> denominator_v5 row \<noteq> 6 / 10)
 \<and> (followup (followup_entry row) = SolicitPositiveReview \<longleftrightarrow> has_feedback row = 0)
 \<and> (followup (followup_entry row) = ConvertDetractor \<longleftrightarrow>
       has_feedback row \<noteq> 0 \<and> has_feedback row = 1 \<and> detractor_v5 row = 1)
 \<and> (followup (followup_entry row) = NoFollowupNeeded \<longleftrightarrow>
       has_feedback row \<noteq> 0 \<and> \<not> (has_feedback row = 1 \<and> detractor_v5 row = 1))
 \<and> (df a = Some d \<and> has_columns d REQUIRED_COLUMNS \<longrightarrow>
       (\<exists>out. get_followup_management a sid = Inr out
            \<and> length out = length (filter (\<lambda>r. supplier_id r = sid) (rows d))
            \<and> set out = followup_entry ` {r \<in> set (rows d). supplier_id r = sid}))"
proof -
  have cls: "(priority (followup_entry row) = 1 \<longleftrightarrow> denominator_v5 row = 1 \<and> detractor_v5 row = 1)
 \<and> (priority (followup_entry row) = 2 \<longleftrightarrow>
       \<not> (denominator_v5 row = 1 \<and> detractor_v5 row = 1) \<and> denominator_v5 row = 6 / 10)
 \<and> (priority (followup_entry row) = 3 \<longleftrightarrow>
       \<not> (denominator_v5 row = 1 \<and> detractor_v5 row = 1) \<and> denominator_v5 row \<noteq> 6 / 10)"
    by (simp add: followup_entry_def classify_priority_def)
  have fu: "(followup (followup_entry row) = SolicitPositiveReview \<longleftrightarrow> has_feedback row = 0)
 \<and> (followup (followup_entry row) = ConvertDetractor \<longleftrightarrow>
       has_feedback row \<noteq> 0 \<and> has_feedback row = 1 \<and> detractor_v5 row = 1)
 \<and> (followup (followup_entry row) = NoFollowupNeeded \<longleftrightarrow>
       has_feedback row \<noteq> 0 \<and> \<not> (has_feedback row = 1 \<and> detractor_v5 row = 1))"
    by (simp add: followup_entry_def classify_followup_def split: prod.split)
  have q: "df a = Some d \<and> has_columns d REQUIRED_COLUMNS \<longrightarrow>
       (\<exists>out. get_followup_management a sid = Inr out
            \<and> length out = length (filter (\<lambda>r. supplier_id r = sid) (rows d))
            \<and> set out = followup_entry ` {r \<in> set (rows d). supplier_id r = sid})"
  proof (intro impI, elim conjE)
    assume d: "df a = Some d" and h: "has_columns d REQUIRED_COLUMNS"
    have h1: "has_columns d [SupplierId]"
      and h2: "has_columns d [DenominatorV5, DetractorV5, HasFeedback, OrderNo, PromoterV5]"
      by (rule has_columns_sub [OF h], simp add: required_set)+
    show "\<exists>out. get_followup_management a sid = Inr out
            \<and> length out = length (filter (\<lambda>r. supplier_id r = sid) (rows d))
            \<and> set out = followup_entry ` {r \<in> set (rows d). supplier_id r = sid}"
      using d h1 h2 by (auto simp: get_followup_management_def Let_def filter_empty_conv)
  qed
  from cls fu q show ?thesis by blast
qed

theorem order_classifier_first_match_witness:
  "priority (followup_entry (order 1 ''A'' 1 (2024, 1, 1) 1 1 0 1)) = 1
 \<and> priority (followup_entry (order 1 ''A'' 1 (2024, 1, 1) (6 / 10) 0 1 0)) = 2
 \<and> followup (followup_entry (order 1 ''A'' 1 (2024, 1, 1) 1 1 0 1)) = ConvertDetractor
 \<and> df \<lparr> nps_target = 60, df = Some two_suppliers, overall_nps = 100 / 3 \<rparr> = Some two_suppliers
 \<and> has_columns two_suppliers REQUIRED_COLUMNS
 \<and> (\<exists>out. get_followup_management
              \<lparr> nps_target = 60, df = Some two_suppliers, overall_nps = 100 / 3 \<rparr> 1 = Inr out
          \<and> length out = 2)"
proof -
  have n: "length (filter (\<lambda>r. supplier_id r = 1) (rows two_suppliers)) = 2"
    by (simp add: two_suppliers_def order_def)
  from order_classifier_first_match
         [of "order 1 ''A'' 1 (2024, 1, 1) 1 1 0 1"
             "\<lparr> nps_target = 60, df = Some two_suppliers, overall_nps = 100 / 3 \<rparr>"
             two_suppliers 1]
       order_classifier_first_match
         [of "order 1 ''A'' 1 (2024, 1, 1) (6 / 10) 0 1 0"
             "\<lparr> nps_target = 60, df = Some two_suppliers, overall_nps = 100 / 3 \<rparr>"
             two_suppliers 1]
       two_suppliers_valid n
  show ?thesis by (auto simp: order_def)
qed

subsection \<open>Unknown supplier\<close>

text \<open>
  Claim C9. On a loaded dataset, for a supplier id that no row carries, each of the four
  scoped calls (follow-up, date, sub-account, follower) returns the empty sequence and
  not an error.
\<close>

theorem unknown_supplier_empty:
  assumes "df a = Some d" and "has_columns d REQUIRED_COLUMNS"
    and "sid \<notin> supplier_id ` set (rows d)"
  shows "get_followup_management a sid = Inr []
       \<and> get_date_dimension a sid = Inr []
       \<and> get_account_dimension a sid = Inr []
       \<and> get_follower_dimension a sid = Inr []"
proof -
  have h1: "has_columns d [SupplierId]"
    by (rule has_columns_sub [OF assms(2)]) (simp add: required_set)
  have e: "filter (\<lambda>r. supplier_id r = sid) (rows d) = []"
    using assms(3) by (auto simp: filter_empty_conv)
  show ?thesis using assms(1) h1 e
    by (simp add: get_followup_management_def get_date_dimension_def
        get_account_dimension_def get_follower_dimension_def)
qed

theorem unknown_supplier_empty_witness:
  "df \<lparr> nps_target = 60, df = Some two_suppliers, overall_nps = 100 / 3 \<rparr> = Some two_suppliers
 \<and> has_columns two_suppliers REQUIRED_COLUMNS
 \<and> 3 \<notin> supplier_id ` set (rows two_suppliers)
 \<and> get_followup_management \<lparr> nps_target = 60, df = Some two_suppliers, overall_nps = 100 / 3 \<rparr> 3 = Inr []
 \<and> get_date_dimension \<lparr> nps_target = 60, df = Some two_suppliers, overall_nps = 100 / 3 \<rparr> 3 = Inr []
 \<and> get_account_dimension \<lparr> nps_target = 60, df = Some two_suppliers, overall_nps = 100 / 3 \<rparr> 3 = Inr []
 \<and> get_follower_dimension \<lparr> nps_target = 60, df = Some two_suppliers, overall_nps = 100 / 3 \<rparr> 3 = Inr []"
proof -
  have u: "3 \<notin> supplier_id ` set (rows two_suppliers)"
    by (simp add: two_suppliers_def order_def)
  from unknown_supplier_empty
         [of "\<lparr> nps_target = 60, df = Some two_suppliers, overall_nps = 100 / 3 \<rparr>"
             two_suppliers 3, OF _ two_suppliers_valid u]
       two_suppliers_valid u
  show ?thesis by simp
qed

subsection \<open>A load that fails on missing columns\<close>

text \<open>What the supplier analysis computes from the frame an analyzer holds, and what the
  routes make of the sheet without order numbers.\<close>

lemma supplier_entry_df: "supplier_entry (a\<lparr>df := x\<rparr>) rs = supplier_entry a rs"
  by (rule ext) (simp add: supplier_entry_def supplier_contribution_def Let_def split: prod.split)

lemma get_overall_analysis_on_frame:
  "get_overall_analysis (a\<lparr>df := Some d\<rparr>) =
     (if has_columns d [SupplierId, SupplierName]
      then if rows d = [] then Inr []
           else if has_columns d [DenominatorV5, DetractorV5, PromoterV5]
           then Inr (assign_ranks
                       (sort_reverse (\<lambda>r. nps (s_metrics r))
                          (map (supplier_entry a (rows d))
                             (groupby (\<lambda>r. (supplier_id r, supplier_name r)) (rows d)))))
           else Inl KeyError
      else Inl KeyError)"
  by (simp add: get_overall_analysis_def Let_def groupby_empty supplier_entry_df)

lemma sheet_without_order_no_overall:
  "get_overall_analysis ((NPSAnalyzer 60)\<lparr>df := Some sheet_without_order_no\<rparr>) =
     Inr [\<lparr> entry = \<lparr> s_supplier_id = 1, s_supplier_name = ''A'',
                        s_metrics = \<lparr> order_count = 1, effective_denominator = 1,
                                      detractor_count = 0, promoter_score_sum = 1,
                                      detractor_rate = 0, promoter_rate = 100, nps = 100 \<rparr>,
                        below_target = False, s_contribution = 100,
                        s_negative_contribution = False \<rparr>,
             rank = 1 \<rparr>]"
  by code_simp

lemma sheet_without_order_no_int64: "int64_denominator sheet_without_order_no"
  by code_simp

lemma sheet_without_order_no_followup:
  "get_followup_management ((NPSAnalyzer 60)\<lparr>df := Some sheet_without_order_no\<rparr>) 1 = Inl KeyError"
  by code_simp

lemma sheet_without_order_no_date:
  "get_date_dimension ((NPSAnalyzer 60)\<lparr>df := Some sheet_without_order_no\<rparr>) 1 =
     Inr [\<lparr> d_date = (2024, 1, 1), d_order_count = 1, d_effective_denominator = 1,
                  d_detractor_count = 0, d_promoter_score_sum = 1, daily_nps = 100,
                  cumulative_nps = 100, is_improved = FirstDate \<rparr>]"
  by code_simp

lemma sheet_without_order_no_archive:
  "generate_all_csvs ((NPSAnalyzer 60)\<lparr>df := Some sheet_without_order_no\<rparr>) = Inl KeyError"
  by code_simp

text \<open>
  Claim C8. After a load that fails because required columns are missing, the analyzer's
  dataset field holds the frame just read, not \<open>None\<close>, and the load has answered failure
  with the missing names; the same frame is in the analyzer that an upload installs.
  Every later query passes the no-dataset guard and is evaluated against that invalid
  frame. For the five query routes (overall, per-supplier, and the three downloads) the
  answer is never the no-data answer: it is what the analyzer's functions return on the
  invalid frame, that is the table, file or archive, or the server error of an uncaught
  \<open>KeyError\<close>, or of the \<open>TypeError\<close> that \<open>jsonify\<close> raises on a table with an int64
  denominator. For the six analyzer functions the result is computed from the rows and the
  columns of the invalid frame: a \<open>KeyError\<close> when a column the function reads is absent,
  and otherwise the table of those rows.
\<close>

theorem failed_load_installs_frame:
  assumes "\<not> has_columns d REQUIRED_COLUMNS"
  shows "fst (load_excel a (Sheet d)) = a\<lparr>df := Some d\<rparr>
       \<and> fst (snd (load_excel a (Sheet d))) = False
       \<and> snd (snd (load_excel a (Sheet d))) =
           MissingColumns (filter (\<lambda>col. col \<notin> set (columns d)) REQUIRED_COLUMNS)
       \<and> df (fst (load_excel a (Sheet d))) \<noteq> None
       \<and> fst (upload_file g \<lparr> file_part = Some (''orders.xlsx'', Sheet d), target_field = Some t \<rparr>)
           = Some ((NPSAnalyzer t)\<lparr>df := Some d\<rparr>)
       \<and> snd (get_overall (Some (a\<lparr>df := Some d\<rparr>))) =
           (case get_overall_analysis (a\<lparr>df := Some d\<rparr>) of
              Inl e \<Rightarrow> ServerError e
            | Inr data \<Rightarrow>
                if data \<noteq> [] \<and> int64_denominator d then ServerError TypeError
                else Success (data, py_round (overall_nps a) 2, nps_target a))
       \<and> snd (get_supplier (Some (a\<lparr>df := Some d\<rparr>)) sid) =
           (case get_followup_management (a\<lparr>df := Some d\<rparr>) sid of
              Inl e \<Rightarrow> ServerError e
            | Inr fu \<Rightarrow>
                (case get_date_dimension (a\<lparr>df := Some d\<rparr>) sid of
                   Inl e \<Rightarrow> ServerError e
                 | Inr dd \<Rightarrow>
                     (case get_account_dimension (a\<lparr>df := Some d\<rparr>) sid of
                        Inl e \<Rightarrow> ServerError e
                      | Inr ad \<Rightarrow>
                          (case get_follower_dimension (a\<lparr>df := Some d\<rparr>) sid of
                             Inl e \<Rightarrow> ServerError e
                           | Inr fd \<Rightarrow>
                               if int64_denominator d \<and> (dd \<noteq> [] \<or> ad \<noteq> [] \<or> fd \<noteq> [])
                               then ServerError TypeError
                               else Success (fu, dd, ad, fd)))))
       \<and> snd (download_overall (Some (a\<lparr>df := Some d\<rparr>))) =
           (case get_overall_analysis (a\<lparr>df := Some d\<rparr>) of
              Inl e \<Rightarrow> ServerError e
            | Inr data \<Rightarrow> Success (OverallCsv data))
       \<and> snd (download_supplier (Some (a\<lparr>df := Some d\<rparr>)) sid dtype) =
           (if dtype = ''followup''
            then (case get_followup_management (a\<lparr>df := Some d\<rparr>) sid of
                    Inl e \<Rightarrow> ServerError e
                  | Inr data \<Rightarrow> Success (sid, FollowupCsv data))
            else if dtype = ''date''
            then (case get_date_dimension (a\<lparr>df := Some d\<rparr>) sid of
                    Inl e \<Rightarrow> ServerError e
                  | Inr data \<Rightarrow> Success (sid, DateCsv data))
            else if dtype = ''account''
            then (case get_account_dimension (a\<lparr>df := Some d\<rparr>) sid of
                    Inl e \<Rightarrow> ServerError e
                  | Inr data \<Rightarrow> Success (sid, AccountCsv data))
            else if dtype = ''follower''
            then (case get_follower_dimension (a\<lparr>df := Some d\<rparr>) sid of
                    Inl e \<Rightarrow> ServerError e
                  | Inr data \<Rightarrow> Success (sid, FollowerCsv data))
            else UnknownDownloadType)
       \<and> snd (download_all (Some (a\<lparr>df := Some d\<rparr>))) =
           (case generate_all_csvs (a\<lparr>df := Some d\<rparr>) of
              Inl e \<Rightarrow> ServerError e
            | Inr archive \<Rightarrow> Success archive)
       \<and> snd (get_overall (Some (a\<lparr>df := Some d\<rparr>))) \<noteq> NoData
       \<and> snd (get_supplier (Some (a\<lparr>df := Some d\<rparr>)) sid) \<noteq> NoData
       \<and> snd (download_overall (Some (a\<lparr>df := Some d\<rparr>))) \<noteq> NoData
       \<and> snd (download_supplier (Some (a\<lparr>df := Some d\<rparr>)) sid dtype) \<noteq> NoData
       \<and> snd (download_all (Some (a\<lparr>df := Some d\<rparr>))) \<noteq> NoData
       \<and> get_overall_analysis (a\<lparr>df := Some d\<rparr>) =
           (if has_columns d [SupplierId, SupplierName]
            then if rows d = [] then Inr []
                 else if has_columns d [DenominatorV5, DetractorV5, PromoterV5]
                 then Inr (assign_ranks
                             (sort_reverse (\<lambda>r. nps (s_metrics r))
                                (map (supplier_entry a (rows d))
                                   (groupby (\<lambda>r. (supplier_id r, supplier_name r)) (rows d)))))
                 else Inl KeyError
            else Inl KeyError)
       \<and> get_supplier_list (a\<lparr>df := Some d\<rparr>) =
           (if has_columns d [SupplierId, SupplierName]
            then Inr (map (\<lambda>((i, n), g). (i, n, length g))
                          (groupby (\<lambda>r. (supplier_id r, supplier_name r)) (rows d)))
            else Inl KeyError)
       \<and> get_followup_management (a\<lparr>df := Some d\<rparr>) sid =
           (if has_columns d [SupplierId]
            then if filter (\<lambda>r. supplier_id r = sid) (rows d) = [] then Inr []
                 else if has_columns d [DenominatorV5, DetractorV5, HasFeedback, OrderNo, PromoterV5]
                 then Inr (sort_key (\<lambda>x. (priority x, - f_denominator x))
                             (map followup_entry (filter (\<lambda>r. supplier_id r = sid) (rows d))))
                 else Inl KeyError
            else Inl KeyError)
       \<and> get_date_dimension (a\<lparr>df := Some d\<rparr>) sid =
           (if has_columns d [SupplierId]
            then if filter (\<lambda>r. supplier_id r = sid) (rows d) = [] then Inr []
                 else if has_columns d [TravelDate, DenominatorV5, DetractorV5, PromoterV5]
                 then Inr (date_loop
                             (groupby travel_date (filter (\<lambda>r. supplier_id r = sid) (rows d)))
                             0 0 0 None)
                 else Inl KeyError
            else Inl KeyError)
       \<and> get_account_dimension (a\<lparr>df := Some d\<rparr>) sid =
           (if has_columns d [SupplierId]
            then if filter (\<lambda>r. supplier_id r = sid) (rows d) = [] then Inr []
                 else if has_columns d [DenominatorV5, DetractorV5, PromoterV5,
                                        SubAccountUid, SubAccountName]
                 then Inr (sort_reverse (\<lambda>x. nps (g_metrics x))
                             (map (group_entry
                                     (calc_nps_metrics (filter (\<lambda>r. supplier_id r = sid) (rows d))))
                                (groupby (\<lambda>r. (account_uid r, account_name r))
                                   (filter (\<lambda>r. supplier_id r = sid) (rows d)))))
                 else Inl KeyError
            else Inl KeyError)
       \<and> get_follower_dimension (a\<lparr>df := Some d\<rparr>) sid =
           (if has_columns d [SupplierId]
            then if filter (\<lambda>r. supplier_id r = sid) (rows d) = [] then Inr []
                 else if has_columns d [DenominatorV5, DetractorV5, PromoterV5,
                                        FollowerId, FollowerName]
                 then Inr (sort_reverse (\<lambda>x. nps (g_metrics x))
                             (map (group_entry
                                     (calc_nps_metrics (filter (\<lambda>r. supplier_id r = sid) (rows d))))
                                (groupby (\<lambda>r. (follower_id r, follower_name r))
                                   (filter (\<lambda>r. supplier_id r = sid) (rows d)))))
                 else Inl KeyError
            else Inl KeyError)"
proof -
  have load: "load_excel a (Sheet d) =
     (a\<lparr>df := Some d\<rparr>, False,
      MissingColumns (filter (\<lambda>col. col \<notin> set (columns d)) REQUIRED_COLUMNS))"
    using assms by (rule load_excel_invalid)
  have up: "fst (upload_file g \<lparr> file_part = Some (''orders.xlsx'', Sheet d), target_field = Some t \<rparr>)
           = Some ((NPSAnalyzer t)\<lparr>df := Some d\<rparr>)"
    using assms by (simp add: load_excel_invalid upload_file_def endswith_def)
  have r1: "snd (get_overall (Some (a\<lparr>df := Some d\<rparr>))) =
           (case get_overall_analysis (a\<lparr>df := Some d\<rparr>) of
              Inl e \<Rightarrow> ServerError e
            | Inr data \<Rightarrow>
                if data \<noteq> [] \<and> int64_denominator d then ServerError TypeError
                else Success (data, py_round (overall_nps a) 2, nps_target a))"
    by (simp add: get_overall_def get_analyzer_def split: sum.split)
  have r2: "snd (get_supplier (Some (a\<lparr>df := Some d\<rparr>)) sid) =
           (case get_followup_management (a\<lparr>df := Some d\<rparr>) sid of
              Inl e \<Rightarrow> ServerError e
            | Inr fu \<Rightarrow>
                (case get_date_dimension (a\<lparr>df := Some d\<rparr>) sid of
                   Inl e \<Rightarrow> ServerError e
                 | Inr dd \<Rightarrow>
                     (case get_account_dimension (a\<lparr>df := Some d\<rparr>) sid of
                        Inl e \<Rightarrow> ServerError e
                      | Inr ad \<Rightarrow>
                          (case get_follower_dimension (a\<lparr>df := Some d\<rparr>) sid of
                             Inl e \<Rightarrow> ServerError e
                           | Inr fd \<Rightarrow>
                               if int64_denominator d \<and> (dd \<noteq> [] \<or> ad \<noteq> [] \<or> fd \<noteq> [])
                               then ServerError TypeError
                               else Success (fu, dd, ad, fd)))))"
    by (simp add: get_supplier_def get_analyzer_def split: sum.split)
  have r3: "snd (download_overall (Some (a\<lparr>df := Some d\<rparr>))) =
           (case get_overall_analysis (a\<lparr>df := Some d\<rparr>) of
              Inl e \<Rightarrow> ServerError e
            | Inr data \<Rightarrow> Success (OverallCsv data))"
    by (simp add: download_overall_def get_analyzer_def split: sum.split)
  have r4: "snd (download_supplier (Some (a\<lparr>df := Some d\<rparr>)) sid dtype) =
           (if dtype = ''followup''
            then (case get_followup_management (a\<lparr>df := Some d\<rparr>) sid of
                    Inl e \<Rightarrow> ServerError e
                  | Inr data \<Rightarrow> Success (sid, FollowupCsv data))
            else if dtype = ''date''
            then (case get_date_dimension (a\<lparr>df := Some d\<rparr>) sid of
                    Inl e \<Rightarrow> ServerError e
                  | Inr data \<Rightarrow> Success (sid, DateCsv data))
            else if dtype = ''account''
            then (case get_account_dimension (a\<lparr>df := Some d\<rparr>) sid of
                    Inl e \<Rightarrow> ServerError e
                  | Inr data \<Rightarrow> Success (sid, AccountCsv data))
            else if dtype = ''follower''
            then (case get_follower_dimension (a\<lparr>df := Some d\<rparr>) sid of
                    Inl e \<Rightarrow> ServerError e
                  | Inr data \<Rightarrow> Success (sid, FollowerCsv data))
            else UnknownDownloadType)"
    by (simp add: download_supplier_def get_analyzer_def split: sum.split)
  have r5: "snd (download_all (Some (a\<lparr>df := Some d\<rparr>))) =
           (case generate_all_csvs (a\<lparr>df := Some d\<rparr>) of
              Inl e \<Rightarrow> ServerError e
            | Inr archive \<Rightarrow> Success archive)"
    by (simp add: download_all_def get_analyzer_def split: sum.split)
  have n1: "snd (get_overall (Some (a\<lparr>df := Some d\<rparr>))) \<noteq> NoData"
    unfolding r1 by (simp split: sum.split)
  have n2: "snd (get_supplier (Some (a\<lparr>df := Some d\<rparr>)) sid) \<noteq> NoData"
    unfolding r2 by (simp split: sum.split)
  have n3: "snd (download_overall (Some (a\<lparr>df := Some d\<rparr>))) \<noteq> NoData"
    unfolding r3 by (simp split: sum.split)
  have n4: "snd (download_supplier (Some (a\<lparr>df := Some d\<rparr>)) sid dtype) \<noteq> NoData"
    unfolding r4 by (simp split: sum.split)
  have n5: "snd (download_all (Some (a\<lparr>df := Some d\<rparr>))) \<noteq> NoData"
    unfolding r5 by (simp split: sum.split)
  note q1 = get_overall_analysis_on_frame [where a = a and d = d]
  have q2: "get_supplier_list (a\<lparr>df := Some d\<rparr>) =
           (if has_columns d [SupplierId, SupplierName]
            then Inr (map (\<lambda>((i, n), g). (i, n, length g))
                          (groupby (\<lambda>r. (supplier_id r, supplier_name r)) (rows d)))
            else Inl KeyError)"
    by (simp add: get_supplier_list_def)
  have q3: "get_followup_management (a\<lparr>df := Some d\<rparr>) sid =
           (if has_columns d [SupplierId]
            then if filter (\<lambda>r. supplier_id r = sid) (rows d) = [] then Inr []
                 else if has_columns d [DenominatorV5, DetractorV5, HasFeedback, OrderNo, PromoterV5]
                 then Inr (sort_key (\<lambda>x. (priority x, - f_denominator x))
                             (map followup_entry (filter (\<lambda>r. supplier_id r = sid) (rows d))))
                 else Inl KeyError
            else Inl KeyError)"
    by (simp add: get_followup_management_def Let_def)
  have q4: "get_date_dimension (a\<lparr>df := Some d\<rparr>) sid =
           (if has_columns d [SupplierId]
            then if filter (\<lambda>r. supplier_id r = sid) (rows d) = [] then Inr []
                 else if has_columns d [TravelDate, DenominatorV5, DetractorV5, PromoterV5]
                 then Inr (date_loop
                             (groupby travel_date (filter (\<lambda>r. supplier_id r = sid) (rows d)))
                             0 0 0 None)
                 else Inl KeyError
            else Inl KeyError)"
    by (simp add: get_date_dimension_def Let_def)
  have q5: "get_account_dimension (a\<lparr>df := Some d\<rparr>) sid =
           (if has_columns d [SupplierId]
            then if filter (\<lambda>r. supplier_id r = sid) (rows d) = [] then Inr []
                 else if has_columns d [DenominatorV5, DetractorV5, PromoterV5,
                                        SubAccountUid, SubAccountName]
                 then Inr (sort_reverse (\<lambda>x. nps (g_metrics x))
                             (map (group_entry
                                     (calc_nps_metrics (filter (\<lambda>r. supplier_id r = sid) (rows d))))
                                (groupby (\<lambda>r. (account_uid r, account_name r))
                                   (filter (\<lambda>r. supplier_id r = sid) (rows d)))))
                 else Inl KeyError
            else Inl KeyError)"
    by (simp add: get_account_dimension_def Let_def)
  have q6: "get_follower_dimension (a\<lparr>df := Some d\<rparr>) sid =
           (if has_columns d [SupplierId]
            then if filter (\<lambda>r. supplier_id r = sid) (rows d) = [] then Inr []
                 else if has_columns d [DenominatorV5, DetractorV5, PromoterV5,
                                        FollowerId, FollowerName]
                 then Inr (sort_reverse (\<lambda>x. nps (g_metrics x))
                             (map (group_entry
                                     (calc_nps_metrics (filter (\<lambda>r. supplier_id r = sid) (rows d))))
                                (groupby (\<lambda>r. (follower_id r, follower_name r))
                                   (filter (\<lambda>r. supplier_id r = sid) (rows d)))))
                 else Inl KeyError
            else Inl KeyError)"
    by (simp add: get_follower_dimension_def Let_def)
  have l: "fst (load_excel a (Sheet d)) = a\<lparr>df := Some d\<rparr>"
    "fst (snd (load_excel a (Sheet d))) = False"
    "snd (snd (load_excel a (Sheet d))) =
           MissingColumns (filter (\<lambda>col. col \<notin> set (columns d)) REQUIRED_COLUMNS)"
    "df (fst (load_excel a (Sheet d))) \<noteq> None"
    by (simp_all add: load)
  show ?thesis
    by (intro conjI l up r1 r2 r3 r4 r5 n1 n2 n3 n4 n5 q1 q2 q3 q4 q5 q6)
qed


theorem failed_load_installs_frame_witness:
  "\<not> has_columns sheet_without_order_no REQUIRED_COLUMNS
 \<and> load_excel (NPSAnalyzer 60) (Sheet sheet_without_order_no)
      = ((NPSAnalyzer 60)\<lparr>df := Some sheet_without_order_no\<rparr>, False, MissingColumns [OrderNo])
 \<and> df (fst (load_excel (NPSAnalyzer 60) (Sheet sheet_without_order_no)))
      = Some sheet_without_order_no
 \<and> get_overall_analysis ((NPSAnalyzer 60)\<lparr>df := Some sheet_without_order_no\<rparr>) =
      Inr [\<lparr> entry = \<lparr> s_supplier_id = 1, s_supplier_name = ''A'',
                        s_metrics = \<lparr> order_count = 1, effective_denominator = 1,
                                      detractor_count = 0, promoter_score_sum = 1,
                                      detractor_rate = 0, promoter_rate = 100, nps = 100 \<rparr>,
                        below_target = False, s_contribution = 100,
                        s_negative_contribution = False \<rparr>,
             rank = 1 \<rparr>]
 \<and> snd (get_overall (Some ((NPSAnalyzer 60)\<lparr>df := Some sheet_without_order_no\<rparr>))) = ServerError TypeError
 \<and> snd (get_supplier (Some ((NPSAnalyzer 60)\<lparr>df := Some sheet_without_order_no\<rparr>)) 1) = ServerError KeyError
 \<and> snd (download_overall (Some ((NPSAnalyzer 60)\<lparr>df := Some sheet_without_order_no\<rparr>))) =
      Success (OverallCsv [\<lparr> entry = \<lparr> s_supplier_id = 1, s_supplier_name = ''A'',
                        s_metrics = \<lparr> order_count = 1, effective_denominator = 1,
                                      detractor_count = 0, promoter_score_sum = 1,
                                      detractor_rate = 0, promoter_rate = 100, nps = 100 \<rparr>,
                        below_target = False, s_contribution = 100,
                        s_negative_contribution = False \<rparr>,
             rank = 1 \<rparr>])
 \<and> snd (download_supplier (Some ((NPSAnalyzer 60)\<lparr>df := Some sheet_without_order_no\<rparr>)) 1 ''date'') =
      Success (1, DateCsv [\<lparr> d_date = (2024, 1, 1), d_order_count = 1, d_effective_denominator = 1,
                  d_detractor_count = 0, d_promoter_score_sum = 1, daily_nps = 100,
                  cumulative_nps = 100, is_improved = FirstDate \<rparr>])
 \<and> snd (download_all (Some ((NPSAnalyzer 60)\<lparr>df := Some sheet_without_order_no\<rparr>))) = ServerError KeyError"
proof -
  note t = failed_load_installs_frame
             [OF sheet_without_order_no_invalid,
              where a = "NPSAnalyzer 60" and sid = 1 and dtype = "''date''"]
  have m: "filter (\<lambda>col. col \<notin> set (columns sheet_without_order_no)) REQUIRED_COLUMNS = [OrderNo]"
    by (simp add: sheet_without_order_no_def REQUIRED_COLUMNS_def)
  have l: "load_excel (NPSAnalyzer 60) (Sheet sheet_without_order_no)
      = ((NPSAnalyzer 60)\<lparr>df := Some sheet_without_order_no\<rparr>, False, MissingColumns [OrderNo])"
    using t m by (simp add: prod_eq_iff)
  have o: "snd (get_overall (Some ((NPSAnalyzer 60)\<lparr>df := Some sheet_without_order_no\<rparr>))) = ServerError TypeError"
    using t by (simp add: sheet_without_order_no_overall sheet_without_order_no_int64)
  have s: "snd (get_supplier (Some ((NPSAnalyzer 60)\<lparr>df := Some sheet_without_order_no\<rparr>)) 1) = ServerError KeyError"
    using t by (simp add: sheet_without_order_no_followup)
  have d1: "snd (download_overall (Some ((NPSAnalyzer 60)\<lparr>df := Some sheet_without_order_no\<rparr>))) =
      Success (OverallCsv [\<lparr> entry = \<lparr> s_supplier_id = 1, s_supplier_name = ''A'',
                        s_metrics = \<lparr> order_count = 1, effective_denominator = 1,
                                      detractor_count = 0, promoter_score_sum = 1,
                                      detractor_rate = 0, promoter_rate = 100, nps = 100 \<rparr>,
                        below_target = False, s_contribution = 100,
                        s_negative_contribution = False \<rparr>,
             rank = 1 \<rparr>])"
    using t by (simp add: sheet_without_order_no_overall)
  have d2: "snd (download_supplier (Some ((NPSAnalyzer 60)\<lparr>df := Some sheet_without_order_no\<rparr>)) 1 ''date'') =
      Success (1, DateCsv [\<lparr> d_date = (2024, 1, 1), d_order_count = 1, d_effective_denominator = 1,
                  d_detractor_count = 0, d_promoter_score_sum = 1, daily_nps = 100,
                  cumulative_nps = 100, is_improved = FirstDate \<rparr>])"
    using t by (simp add: sheet_without_order_no_date)
  have d3: "snd (download_all (Some ((NPSAnalyzer 60)\<lparr>df := Some sheet_without_order_no\<rparr>))) = ServerError KeyError"
    using t by (simp add: sheet_without_order_no_archive)
  from l have f: "df (fst (load_excel (NPSAnalyzer 60) (Sheet sheet_without_order_no)))
      = Some sheet_without_order_no" by simp
  from sheet_without_order_no_invalid l f sheet_without_order_no_overall o s d1 d2 d3
  show ?thesis by (intro conjI)
qed

subsection \<open>Setting the target\<close>

text \<open>
  Claim C10. Setting the target writes the \<open>nps_target\<close> field and nothing else: the
  dataset and the baseline are untouched, the supplier list and the four scoped tables
  are the same for every target, and the supplier table is the same for every target once
  its below-target flag is disregarded (so order counts, denominators, rates, nps,
  contributions, ranks and the order of the entries do not depend on the target).
\<close>

theorem target_only_moves_flag:
  "set_target (Some a) t = (Some (a\<lparr>nps_target := t\<rparr>), Success t)
 \<and> df (a\<lparr>nps_target := t\<rparr>) = df a
 \<and> overall_nps (a\<lparr>nps_target := t\<rparr>) = overall_nps a
 \<and> get_supplier_list (a\<lparr>nps_target := t\<rparr>) = get_supplier_list a
 \<and> get_followup_management (a\<lparr>nps_target := t\<rparr>) sid = get_followup_management a sid
 \<and> get_date_dimension (a\<lparr>nps_target := t\<rparr>) sid = get_date_dimension a sid
 \<and> get_account_dimension (a\<lparr>nps_target := t\<rparr>) sid = get_account_dimension a sid
 \<and> get_follower_dimension (a\<lparr>nps_target := t\<rparr>) sid = get_follower_dimension a sid
 \<and> map_sum id (map clear_below_target) (get_overall_analysis (a\<lparr>nps_target := t\<rparr>))
     = map_sum id (map clear_below_target) (get_overall_analysis a)"
proof -
  have key: "\<And>x::supplier_row. nps (s_metrics (x\<lparr>below_target := False\<rparr>)) = nps (s_metrics x)"
    by simp
  have m: "map (\<lambda>r. r\<lparr>below_target := False\<rparr>) (map (supplier_entry (a\<lparr>nps_target := t\<rparr>) rs) gs)
         = map (\<lambda>r. r\<lparr>below_target := False\<rparr>) (map (supplier_entry a rs) gs)" for rs gs
    by (simp add: supplier_entry_target)
  have o: "map clear_below_target
             (assign_ranks (sort_reverse (\<lambda>r. nps (s_metrics r))
                (map (supplier_entry (a\<lparr>nps_target := t\<rparr>) rs) gs)))
         = map clear_below_target
             (assign_ranks (sort_reverse (\<lambda>r. nps (s_metrics r))
                (map (supplier_entry a rs) gs)))" for rs gs
  proof -
    have c: "map (\<lambda>r. r\<lparr>below_target := False\<rparr>) (sort_reverse (\<lambda>r. nps (s_metrics r)) xs)
           = sort_reverse (\<lambda>r. nps (s_metrics r)) (map (\<lambda>r. r\<lparr>below_target := False\<rparr>) xs)"
      for xs :: "supplier_row list"
      by (rule sort_reverse_map [symmetric]) simp
    show ?thesis
      unfolding assign_ranks_map_clear c by (simp only: m)
  qed
  have ov: "map_sum id (map clear_below_target) (get_overall_analysis (a\<lparr>nps_target := t\<rparr>))
     = map_sum id (map clear_below_target) (get_overall_analysis a)"
    using o by (simp add: get_overall_analysis_def Let_def split: option.split)
  have rest: "set_target (Some a) t = (Some (a\<lparr>nps_target := t\<rparr>), Success t)
 \<and> df (a\<lparr>nps_target := t\<rparr>) = df a
 \<and> overall_nps (a\<lparr>nps_target := t\<rparr>) = overall_nps a
 \<and> get_supplier_list (a\<lparr>nps_target := t\<rparr>) = get_supplier_list a
 \<and> get_followup_management (a\<lparr>nps_target := t\<rparr>) sid = get_followup_management a sid
 \<and> get_date_dimension (a\<lparr>nps_target := t\<rparr>) sid = get_date_dimension a sid
 \<and> get_account_dimension (a\<lparr>nps_target := t\<rparr>) sid = get_account_dimension a sid
 \<and> get_follower_dimension (a\<lparr>nps_target := t\<rparr>) sid = get_follower_dimension a sid"
    by (simp add: set_target_def get_supplier_list_def get_followup_management_def
        get_date_dimension_def get_account_dimension_def get_follower_dimension_def)
  from rest ov show ?thesis by blast
qed

theorem target_only_moves_flag_witness:
  "set_target (Some \<lparr> nps_target = 60, df = Some two_suppliers, overall_nps = 100 / 3 \<rparr>) 150
     = (Some \<lparr> nps_target = 150, df = Some two_suppliers, overall_nps = 100 / 3 \<rparr>, Success 150)
 \<and> get_account_dimension \<lparr> nps_target = 150, df = Some two_suppliers, overall_nps = 100 / 3 \<rparr> 1
     = get_account_dimension \<lparr> nps_target = 60, df = Some two_suppliers, overall_nps = 100 / 3 \<rparr> 1
 \<and> map_sum id (map clear_below_target)
      (get_overall_analysis \<lparr> nps_target = 150, df = Some two_suppliers, overall_nps = 100 / 3 \<rparr>)
     = map_sum id (map clear_below_target)
      (get_overall_analysis \<lparr> nps_target = 60, df = Some two_suppliers, overall_nps = 100 / 3 \<rparr>)"
  using target_only_moves_flag
          [of "\<lparr> nps_target = 60, df = Some two_suppliers, overall_nps = 100 / 3 \<rparr>" 150 1]
  by simp

subsection \<open>Ranks of the supplier dimension\<close>

text \<open>
  Claim C5. On a loaded dataset with k distinct suppliers (distinct pairs of supplier id
  and name, the grouping key), the supplier analysis succeeds and its ranks are 1, 2, ..., k
  in the order of the table; the table is sorted by reported nps in descending order; and
  for every nps value the entries carrying it appear in the same relative order as before
  the sort, which is the order in which the groups are discovered (ascending key, one
  entry per distinct supplier).
\<close>

theorem supplier_ranks_descending_stable:
  assumes "df a = Some d" and "has_columns d REQUIRED_COLUMNS"
  shows "\<exists>out. get_overall_analysis a = Inr out
     \<and> map rank out =
         [1..<Suc (card ((\<lambda>r. (supplier_id r, supplier_name r)) ` set (rows d)))]
     \<and> sorted (rev (map (\<lambda>r. nps (s_metrics (entry r))) out))
     \<and> (\<forall>v. filter (\<lambda>e. nps (s_metrics e) = v) (map entry out)
            = filter (\<lambda>e. nps (s_metrics e) = v)
                (map (supplier_entry a (rows d))
                   (groupby (\<lambda>r. (supplier_id r, supplier_name r)) (rows d))))
     \<and> map (\<lambda>e. (s_supplier_id e, s_supplier_name e))
           (map (supplier_entry a (rows d))
              (groupby (\<lambda>r. (supplier_id r, supplier_name r)) (rows d)))
         = sort (remdups (map (\<lambda>r. (supplier_id r, supplier_name r)) (rows d)))"
proof -
  define gs where "gs = groupby (\<lambda>r. (supplier_id r, supplier_name r)) (rows d)"
  define pre where "pre = map (supplier_entry a (rows d)) gs"
  define out where "out = assign_ranks (sort_reverse (\<lambda>r. nps (s_metrics r)) pre)"
  have h1: "has_columns d [SupplierId, SupplierName]"
    and h2: "has_columns d [DenominatorV5, DetractorV5, PromoterV5]"
    by (rule has_columns_sub [OF assms(2)], simp add: required_set)+
  have e: "gs = [] \<Longrightarrow> out = []"
    by (simp add: out_def pre_def assign_ranks_def sort_reverse_def)
  have res: "get_overall_analysis a = Inr out"
    using assms(1) h1 h2 e
    by (simp add: get_overall_analysis_def Let_def out_def pre_def gs_def)
  have len: "length out = card ((\<lambda>r. (supplier_id r, supplier_name r)) ` set (rows d))"
    by (simp add: out_def length_assign_ranks length_sort_reverse pre_def gs_def length_groupby)
  have rk: "map rank out = [1..<Suc (length out)]"
    by (simp only: out_def rank_assign_ranks length_assign_ranks)
  have en: "map entry out = sort_reverse (\<lambda>r. nps (s_metrics r)) pre"
    by (simp add: out_def entry_assign_ranks)
  have "map (\<lambda>r. nps (s_metrics (entry r))) out = map (\<lambda>r. nps (s_metrics r)) (map entry out)"
    by (simp add: comp_def)
  then have srt: "sorted (rev (map (\<lambda>r. nps (s_metrics (entry r))) out))"
    by (simp only: en sort_reverse_sorted)
  have stab: "filter (\<lambda>e. nps (s_metrics e) = v) (map entry out)
            = filter (\<lambda>e. nps (s_metrics e) = v) pre" for v
    by (simp only: en sort_reverse_stable)
  have keys: "map (\<lambda>e. (s_supplier_id e, s_supplier_name e)) pre
         = sort (remdups (map (\<lambda>r. (supplier_id r, supplier_name r)) (rows d)))"
    by (simp add: pre_def comp_def supplier_entry_key gs_def map_fst_groupby [symmetric])
  from res rk len srt stab keys show ?thesis
    unfolding pre_def gs_def by auto
qed

theorem supplier_ranks_descending_stable_witness:
  "df \<lparr> nps_target = 60, df = Some two_suppliers, overall_nps = 100 / 3 \<rparr> = Some two_suppliers
 \<and> has_columns two_suppliers REQUIRED_COLUMNS
 \<and> (\<exists>out. get_overall_analysis \<lparr> nps_target = 60, df = Some two_suppliers, overall_nps = 100 / 3 \<rparr>
              = Inr out
        \<and> map rank out = [1, 2]
        \<and> map (\<lambda>r. s_supplier_name (entry r)) out = [''B'', ''A'']
        \<and> sorted (rev (map (\<lambda>r. nps (s_metrics (entry r))) out)))"
proof -
  have k: "card ((\<lambda>r. (supplier_id r, supplier_name r)) ` set (rows two_suppliers)) = 2"
    by (simp add: two_suppliers_def order_def)
  have u: "[1..<Suc 2] = [1, 2]" by (simp add: upt_rec)
  from supplier_ranks_descending_stable
         [of "\<lparr> nps_target = 60, df = Some two_suppliers, overall_nps = 100 / 3 \<rparr>" two_suppliers,
          OF _ two_suppliers_valid]
  obtain out where
    o: "get_overall_analysis \<lparr> nps_target = 60, df = Some two_suppliers, overall_nps = 100 / 3 \<rparr>
          = Inr out"
    and r: "map rank out =
         [1..<Suc (card ((\<lambda>r. (supplier_id r, supplier_name r)) ` set (rows two_suppliers)))]"
    and s: "sorted (rev (map (\<lambda>r. nps (s_metrics (entry r))) out))"
    by auto
  from o have n: "map (\<lambda>r. s_supplier_name (entry r)) out = [''B'', ''A'']"
    unfolding two_suppliers_analysis by auto
  from o r s n k u two_suppliers_valid show ?thesis by simp
qed

subsection \<open>The nps identity and the range of the rates\<close>

text \<open>
  Claim C3, as stated, fails: one detractor order of weight 0.6 has promoter score 0 and
  detractor flag 1, yet its reported detractor rate is 166.67.
\<close>

theorem detractor_rate_above_100_counterexample:
  "[light_detractor] \<noteq> []
 \<and> 0 \<le> promoter_v5 light_detractor \<and> promoter_v5 light_detractor \<le> 1
 \<and> detractor_v5 light_detractor = 1
 \<and> detractor_rate (calc_nps_metrics [light_detractor]) = 16667 / 100
 \<and> \<not> detractor_rate (calc_nps_metrics [light_detractor]) \<le> 100"
  by code_simp

text \<open>
  Claim C3, amended. For every non-empty subset of records with non-negative weights,
  promoter scores in [0,1] and detractor flags in {0,1}: the unrounded nps is exactly
  (promoter rate - detractor rate) * 100, and the reported nps, promoter rate and detractor
  rate are the roundings to two decimals of that value and of the two rates times 100; the
  reported promoter rate lies in [0,100]; the reported detractor rate is at least 0, and
  it is at most 100 whenever the detractor sum does not exceed the total weight.
\<close>

theorem metric_identity_and_ranges:
  assumes "g \<noteq> []"
    and "\<forall>r\<in>set g. 0 \<le> denominator_v5 r \<and> 0 \<le> promoter_v5 r \<and> promoter_v5 r \<le> 1
             \<and> (detractor_v5 r = 0 \<or> detractor_v5 r = 1)"
  shows "snd (snd (raw_rates g)) = (fst (snd (raw_rates g)) - fst (raw_rates g)) * 100
       \<and> nps (calc_nps_metrics g) = py_round (snd (snd (raw_rates g))) 2
       \<and> promoter_rate (calc_nps_metrics g) = py_round (fst (snd (raw_rates g)) * 100) 2
       \<and> detractor_rate (calc_nps_metrics g) = py_round (fst (raw_rates g) * 100) 2
       \<and> 0 \<le> promoter_rate (calc_nps_metrics g)
       \<and> promoter_rate (calc_nps_metrics g) \<le> 100
       \<and> 0 \<le> detractor_rate (calc_nps_metrics g)
       \<and> (sum_detractor g \<le> sum_denominator g \<longrightarrow> detractor_rate (calc_nps_metrics g) \<le> 100)"
proof -
  note b = raw_rates_bounds [OF assms(2)]
  have 1: "0 \<le> promoter_rate (calc_nps_metrics g)"
    unfolding calc_nps_metrics_rates using b(2) by (intro py_round_nonneg) simp
  have 2: "promoter_rate (calc_nps_metrics g) \<le> 100"
    unfolding calc_nps_metrics_rates using b(3) by (intro py_round_le_100) simp
  have 3: "0 \<le> detractor_rate (calc_nps_metrics g)"
    unfolding calc_nps_metrics_rates using b(1) by (intro py_round_nonneg) simp
  have 4: "sum_detractor g \<le> sum_denominator g \<longrightarrow> detractor_rate (calc_nps_metrics g) \<le> 100"
    unfolding calc_nps_metrics_rates using b(4) by (auto intro!: py_round_le_100)
  from 1 2 3 4 raw_rates_identity [of g] calc_nps_metrics_rates [of g]
  show ?thesis by simp
qed

theorem metric_identity_and_ranges_witness:
  "rows two_suppliers \<noteq> []
 \<and> map denominator_v5 (rows two_suppliers) = [1, 1, 1]
 \<and> map promoter_v5 (rows two_suppliers) = [0, 1, 1]
 \<and> map detractor_v5 (rows two_suppliers) = [1, 0, 0]
 \<and> sum_detractor (rows two_suppliers) \<le> sum_denominator (rows two_suppliers)
 \<and> snd (snd (raw_rates (rows two_suppliers)))
      = (fst (snd (raw_rates (rows two_suppliers))) - fst (raw_rates (rows two_suppliers))) * 100
 \<and> 0 \<le> promoter_rate (calc_nps_metrics (rows two_suppliers))
 \<and> promoter_rate (calc_nps_metrics (rows two_suppliers)) \<le> 100
 \<and> 0 \<le> detractor_rate (calc_nps_metrics (rows two_suppliers))
 \<and> detractor_rate (calc_nps_metrics (rows two_suppliers)) \<le> 100"
proof -
  have a: "rows two_suppliers \<noteq> []" by (simp add: two_suppliers_def)
  have b: "\<forall>r\<in>set (rows two_suppliers).
        0 \<le> denominator_v5 r \<and> 0 \<le> promoter_v5 r \<and> promoter_v5 r \<le> 1
        \<and> (detractor_v5 r = 0 \<or> detractor_v5 r = 1)"
    by (simp add: two_suppliers_def order_def)
  have c: "sum_detractor (rows two_suppliers) \<le> sum_denominator (rows two_suppliers)"
    by (simp add: two_suppliers_def order_def sum_detractor_def sum_denominator_def)
  have v: "map denominator_v5 (rows two_suppliers) = [1, 1, 1]"
    "map promoter_v5 (rows two_suppliers) = [0, 1, 1]"
    "map detractor_v5 (rows two_suppliers) = [1, 0, 0]"
    by (simp_all add: two_suppliers_def order_def)
  from metric_identity_and_ranges [OF a b] a c v show ?thesis by simp
qed

subsection \<open>Failed load and the previous state\<close>

text \<open>
  Claim C1 says that a load failing on missing columns reports the missing names and
  leaves the analyzer's dataset as it was. The code reports the names, but not the rest:
  a new analyzer (no dataset) that is given a sheet without the order-number column
  answers failure with that column's name and then holds the sheet as its dataset; and an
  upload of that sheet replaces the analyzer that held a valid dataset by one holding the
  invalid sheet.
\<close>

theorem failed_load_changes_dataset:
  "df (NPSAnalyzer 60) = None
 \<and> load_excel (NPSAnalyzer 60) (Sheet sheet_without_order_no) =
      (\<lparr> nps_target = 60, df = Some sheet_without_order_no, overall_nps = 0 \<rparr>,
       False, MissingColumns [OrderNo])
 \<and> fst (upload_file (Some \<lparr> nps_target = 60, df = Some two_suppliers, overall_nps = 100 / 3 \<rparr>)
           \<lparr> file_part = Some (''orders.xlsx'', Sheet sheet_without_order_no),
             target_field = Some 60 \<rparr>) =
      Some \<lparr> nps_target = 60, df = Some sheet_without_order_no, overall_nps = 0 \<rparr>"
  by code_simp

subsection \<open>The negative-contribution flag\<close>

text \<open>The flag of the supplier dimension is the sign of the unrounded contribution; the
  flag of the sub-account and follower dimensions compares the group's nps with the
  supplier's.\<close>

lemma supplier_flag_is_sign:
  "s_negative_contribution (supplier_entry a rs (k, g))
     \<longleftrightarrow> supplier_contribution a rs (calc_nps_metrics g) < 0"
  by (simp add: supplier_entry_def Let_def split: prod.split)

lemma group_flag_is_comparison:
  "g_negative_contribution (group_entry sm (k, g)) \<longleftrightarrow> nps (calc_nps_metrics g) < nps sm"
  by (simp add: group_entry_def Let_def split: prod.split)

text \<open>
  Claim C2 says that in every dimension the negative-contribution flag is set exactly when
  the contribution, (group nps - reference nps) * weight, is below 0. In the sub-account
  and follower dimensions the code sets it for a group of weight 0 under a supplier of
  nps 100: the contribution of that group is 0, its flag is set.
\<close>

theorem zero_weight_group_flagged:
  "get_account_dimension \<lparr> nps_target = 60, df = Some zero_weight_account, overall_nps = 100 \<rparr> 1 =
     Inr [\<lparr> g_id = 1, g_name = ''u'',
            g_metrics = \<lparr> order_count = 1, effective_denominator = 1, detractor_count = 0,
                          promoter_score_sum = 1, detractor_rate = 0, promoter_rate = 100,
                          nps = 100 \<rparr>,
            g_contribution = 0, g_negative_contribution = False \<rparr>,
          \<lparr> g_id = 2, g_name = ''u'',
            g_metrics = \<lparr> order_count = 1, effective_denominator = 0, detractor_count = 0,
                          promoter_score_sum = 0, detractor_rate = 0, promoter_rate = 0,
                          nps = 0 \<rparr>,
            g_contribution = 0, g_negative_contribution = True \<rparr>]
 \<and> group_contribution (calc_nps_metrics (rows zero_weight_account))
      (calc_nps_metrics [order 1 ''A'' 2 (2024, 1, 1) 0 0 0 0]) = 0
 \<and> map g_negative_contribution
      (case get_follower_dimension
              \<lparr> nps_target = 60, df = Some zero_weight_account, overall_nps = 100 \<rparr> 1 of
         Inl e \<Rightarrow> [] | Inr out \<Rightarrow> out) = [False, True]"
  by code_simp

subsection \<open>Cumulative nps of the date dimension\<close>

text \<open>
  Claim C4 says that the cumulative nps after the last date equals the supplier's nps
  computed from all its rows. For a supplier with a single order of weight 1 and promoter
  score 0.3125 the code reports cumulative nps 31 on its only date, while the supplier's
  nps is 31.25, rounded or not: the running promoter sum is fed with the day's sum
  already rounded to two decimals (0.31).
\<close>

theorem cumulative_nps_single_order:
  "load_excel (NPSAnalyzer 60) (Sheet single_order) =
     (\<lparr> nps_target = 60, df = Some single_order, overall_nps = 125 / 4 \<rparr>, True, Loaded 1 1)
 \<and> get_date_dimension \<lparr> nps_target = 60, df = Some single_order, overall_nps = 125 / 4 \<rparr> 1 =
     Inr [\<lparr> d_date = (2024, 1, 1), d_order_count = 1, d_effective_denominator = 1,
            d_detractor_count = 0, d_promoter_score_sum = 31 / 100, daily_nps = 125 / 4,
            cumulative_nps = 31, is_improved = FirstDate \<rparr>]
 \<and> nps (calc_nps_metrics (filter (\<lambda>r. supplier_id r = 1) (rows single_order))) = 125 / 4
 \<and> snd (snd (raw_rates (filter (\<lambda>r. supplier_id r = 1) (rows single_order)))) = 125 / 4"
  by code_simp

end
